theory Spec2Isabelle
  imports Main "HOL-Library.Word"
begin

section \<open>The USB bulk-endpoint streaming session of test-iokit-ep2.c\<close>

text \<open>
  The program is one function, \<^verbatim>\<open>main\<close>, of scripts/archive/test-iokit-ep2.c: a
  straight-line sequence of calls into the platform USB subsystem with early returns, one
  dereference of a pointer that is not tested, one diagnostic loop over the pipes and one
  streaming loop. It is embedded as a function from
  the answers of the platform (an \<open>env\<close>) to the sequence of calls the program makes
  (its trace) and the way it ends. The program is deterministic and every call site is
  reached at most once outside the two loops, so one answer per call site (and one per
  iteration inside a loop) describes every run.
\<close>

subsection \<open>Platform types and constants\<close>

text \<open>
  \<^verbatim>\<open>kern_return_t\<close>, \<^verbatim>\<open>IOReturn\<close> and \<^verbatim>\<open>HRESULT\<close> are 32-bit integers, an
  \<^verbatim>\<open>io_object_t\<close> (\<^verbatim>\<open>io_iterator_t\<close>, \<^verbatim>\<open>io_service_t\<close>) is a 32-bit port name
  whose null value is 0. The success codes are those of the platform headers
  (\<^verbatim>\<open>mach/kern_return.h\<close>, \<^verbatim>\<open>IOKit/IOReturn.h\<close>); the program only compares with them.
\<close>

type_synonym kern_return_t = "32 word"
type_synonym HRESULT = "32 word"
type_synonym io_object_t = "32 word"
type_synonym UInt8 = "8 word"
type_synonym UInt16 = "16 word"

definition KERN_SUCCESS :: kern_return_t where
  "KERN_SUCCESS = 0"

definition kIOReturnSuccess :: kern_return_t where
  "kIOReturnSuccess = 0"

definition kIOUSBFindInterfaceDontCare :: UInt16 where
  "kIOUSBFindInterfaceDontCare = 0xFFFF"

text \<open>Lines 18 and 19.\<close>

definition VID :: "32 word" where
  "VID = 0x15E4"

definition PID :: "32 word" where
  "PID = 0x0053"

subsection \<open>Calls and traces\<close>

text \<open>The variables of \<^verbatim>\<open>main\<close> that hold a handle (lines 23 to 27 and 111).\<close>

datatype handle =
  iterator | usbDevice | plugInInterface | deviceInterface | usbInterface | interfaceInterface

datatype dict_key = kUSBVendorID | kUSBProductID

datatype arg = ArgInt "32 word" | ArgStr string

record IOUSBFindInterfaceRequest =
  bInterfaceClass :: UInt16
  bInterfaceSubClass :: UInt16
  bInterfaceProtocol :: UInt16
  bAlternateSetting :: UInt16

text \<open>
  One constructor per external call of the source. \<open>printf l as\<close> is the \<^verbatim>\<open>printf\<close> of
  source line \<open>l\<close> with the values \<open>as\<close> of its arguments after the format string. A call
  made through a handle keeps the source's receiver: the device methods
  (\<open>USBDeviceOpen\<close> to \<open>USBDeviceClose\<close>) are called on \<^verbatim>\<open>deviceInterface\<close>, the
  interface methods (\<open>USBInterfaceOpen\<close> to \<open>USBInterfaceClose\<close>) on
  \<^verbatim>\<open>interfaceInterface\<close>, \<open>QueryInterface h\<close> on \<^verbatim>\<open>plugInInterface\<close> with \<open>h\<close> the
  variable that receives the interface, and \<open>Release h\<close> is the \<^verbatim>\<open>Release\<close> method of \<open>h\<close>.
  \<open>CFDictionarySetValue k v\<close> stands for the \<^verbatim>\<open>CFNumberCreate\<close> of \<open>v\<close> and the insertion
  under key \<open>k\<close>; \<open>WritePipe p buf n\<close> carries the pipe number, the bytes and the length.
\<close>

datatype event =
    printf nat "arg list"
  | IOServiceMatching
  | CFDictionarySetValue dict_key "32 word"
  | IOServiceGetMatchingServices
  | IOIteratorNext handle
  | IOObjectRelease handle
  | IOCreatePlugInInterfaceForService handle
  | QueryInterface handle
  | Release handle
  | USBDeviceOpen
  | USBDeviceOpenSeize
  | SetConfiguration UInt8
  | CreateInterfaceIterator IOUSBFindInterfaceRequest
  | USBDeviceClose
  | USBInterfaceOpen
  | GetNumEndpoints
  | GetPipeProperties UInt8
  | WritePipe UInt8 "UInt8 list" "32 word"
  | USBInterfaceClose
  | usleep "32 word"

text \<open>The handle a call is made on or is given.\<close>

fun receiver :: "event \<Rightarrow> handle option" where
  "receiver (IOIteratorNext h) = Some h"
| "receiver (IOObjectRelease h) = Some h"
| "receiver (IOCreatePlugInInterfaceForService h) = Some h"
| "receiver (QueryInterface h) = Some plugInInterface"
| "receiver (Release h) = Some h"
| "receiver USBDeviceOpen = Some deviceInterface"
| "receiver USBDeviceOpenSeize = Some deviceInterface"
| "receiver (SetConfiguration c) = Some deviceInterface"
| "receiver (CreateInterfaceIterator r) = Some deviceInterface"
| "receiver USBDeviceClose = Some deviceInterface"
| "receiver USBInterfaceOpen = Some interfaceInterface"
| "receiver GetNumEndpoints = Some interfaceInterface"
| "receiver (GetPipeProperties i) = Some interfaceInterface"
| "receiver (WritePipe p buf n) = Some interfaceInterface"
| "receiver USBInterfaceClose = Some interfaceInterface"
| "receiver (printf l as) = None"
| "receiver IOServiceMatching = None"
| "receiver (CFDictionarySetValue k v) = None"
| "receiver IOServiceGetMatchingServices = None"
| "receiver (usleep t) = None"

subsection \<open>The answers of the platform\<close>

text \<open>What \<^verbatim>\<open>GetPipeProperties\<close> leaves in \<^verbatim>\<open>kr\<close> and in its out-parameters (line 155).\<close>

record pipe_out =
  pipe_kr :: kern_return_t
  direction :: UInt8
  number :: UInt8
  transferType :: UInt8
  maxPacketSize :: UInt16
  interval :: UInt8

text \<open>
  One field per call whose result the program reads, in source order. A pointer is
  recorded by whether it is non-null: the program tests nothing else of it, and
  dereferences it. \<open>devPlugIn_nonnull\<close> and \<open>ifPlugIn_nonnull\<close> are the state of
  \<^verbatim>\<open>plugInInterface\<close> after the calls of lines 60 and 121.
  \<open>numEndpoints_val\<close> is the content of \<^verbatim>\<open>numEndpoints\<close> after the call of line 149,
  whatever its status, since the program never looks at that status.
  \<open>GetPipeProperties_out\<close> answers per pipe index and \<open>WritePipe_loop_kr\<close> per
  iteration of the streaming loop.
\<close>

record env =
  matchingDict_nonnull :: bool
  GetMatchingServices_kr :: kern_return_t
  usbDevice_port :: io_object_t
  devPlugIn_kr :: kern_return_t
  devPlugIn_nonnull :: bool
  devQuery_result :: HRESULT
  deviceInterface_nonnull :: bool
  USBDeviceOpen_kr :: kern_return_t
  USBDeviceOpenSeize_kr :: kern_return_t
  SetConfiguration_kr :: kern_return_t
  CreateInterfaceIterator_kr :: kern_return_t
  usbInterface_port :: io_object_t
  ifPlugIn_kr :: kern_return_t
  ifPlugIn_nonnull :: bool
  ifQuery_result :: HRESULT
  interfaceInterface_nonnull :: bool
  USBInterfaceOpen_kr :: kern_return_t
  GetNumEndpoints_kr :: kern_return_t
  numEndpoints_val :: UInt8
  GetPipeProperties_out :: "UInt8 \<Rightarrow> pipe_out"
  WritePipe1_kr :: kern_return_t
  WritePipe2_kr :: kern_return_t
  WritePipe_loop_kr :: "nat \<Rightarrow> kern_return_t"

subsection \<open>Blocks of main\<close>

text \<open>
  A block of statements either falls through (\<open>Next\<close>), or executes \<^verbatim>\<open>return n\<close>
  (\<open>Return\<close>), or dereferences a null pointer, which ends the process (\<open>Fault\<close>), in
  each case after the calls listed. \<open>run_steps\<close> runs blocks in sequence up to the first
  that does not fall through.
\<close>

datatype step = Return "event list" int | Next "event list" | Fault "event list"

fun run_steps :: "step list \<Rightarrow> step" where
  "run_steps [] = Next []"
| "run_steps (Return es n # ss) = Return es n"
| "run_steps (Fault es # ss) = Fault es"
| "run_steps (Next es # ss) =
     (case run_steps ss of
        Return fs n \<Rightarrow> Return (es @ fs) n
      | Next fs \<Rightarrow> Next (es @ fs)
      | Fault fs \<Rightarrow> Fault (es @ fs))"

text \<open>Lines 31 to 57: find the USB device.\<close>

definition find_device :: "env \<Rightarrow> step" where
  "find_device env =
     (let t0 = [printf 31 [], IOServiceMatching] in
      if \<not> matchingDict_nonnull env then Return (t0 @ [printf 36 []]) 1
      else
        let kr = GetMatchingServices_kr env;
            t1 = t0 @ [CFDictionarySetValue kUSBVendorID VID,
                       CFDictionarySetValue kUSBProductID PID,
                       IOServiceGetMatchingServices] in
        if kr \<noteq> KERN_SUCCESS then Return (t1 @ [printf 47 [ArgInt kr]]) 1
        else
          let t2 = t1 @ [IOIteratorNext iterator, IOObjectRelease iterator] in
          if usbDevice_port env = 0 then Return (t2 @ [printf 54 []]) 1
          else Next (t2 @ [printf 57 []]))"

text \<open>Lines 59 to 76: get the device interface.\<close>

definition get_device_interface :: "env \<Rightarrow> step" where
  "get_device_interface env =
     (let kr = devPlugIn_kr env;
          t0 = [IOCreatePlugInInterfaceForService usbDevice, IOObjectRelease usbDevice] in
      if kr \<noteq> KERN_SUCCESS \<or> \<not> devPlugIn_nonnull env then
        Return (t0 @ [printf 64 [ArgInt kr]]) 1
      else
        let t1 = t0 @ [QueryInterface deviceInterface, Release plugInInterface] in
        if devQuery_result env \<noteq> 0 \<or> \<not> deviceInterface_nonnull env then
          Return (t1 @ [printf 73 []]) 1
        else Next (t1 @ [printf 76 []]))"

text \<open>Lines 78 to 90: open the device, with the seize fallback.\<close>

definition open_device :: "env \<Rightarrow> step" where
  "open_device env =
     (let kr = USBDeviceOpen_kr env in
      if kr \<noteq> kIOReturnSuccess then
        let t0 = [USBDeviceOpen, printf 81 [ArgInt kr], USBDeviceOpenSeize];
            kr = USBDeviceOpenSeize_kr env in
        if kr \<noteq> kIOReturnSuccess then
          Return (t0 @ [printf 85 [ArgInt kr], Release deviceInterface]) 1
        else Next (t0 @ [printf 90 []])
      else Next [USBDeviceOpen, printf 90 []])"

text \<open>Lines 92 to 94: set the configuration; the status is printed and not tested.\<close>

definition set_configuration :: "env \<Rightarrow> step" where
  "set_configuration env =
     Next [SetConfiguration 1, printf 94 [ArgInt (SetConfiguration_kr env)]]"

text \<open>Lines 96 to 118: find the interface.\<close>

definition request :: IOUSBFindInterfaceRequest where
  "request =
     \<lparr>bInterfaceClass = kIOUSBFindInterfaceDontCare,
      bInterfaceSubClass = kIOUSBFindInterfaceDontCare,
      bInterfaceProtocol = kIOUSBFindInterfaceDontCare,
      bAlternateSetting = kIOUSBFindInterfaceDontCare\<rparr>"

definition find_interface :: "env \<Rightarrow> step" where
  "find_interface env =
     (let kr = CreateInterfaceIterator_kr env in
      if kr \<noteq> kIOReturnSuccess then
        Return [CreateInterfaceIterator request, printf 105 [ArgInt kr],
                USBDeviceClose, Release deviceInterface] 1
      else
        let t0 = [CreateInterfaceIterator request, IOIteratorNext iterator,
                  IOObjectRelease iterator] in
        if usbInterface_port env = 0 then
          Return (t0 @ [printf 114 [], USBDeviceClose, Release deviceInterface]) 1
        else Next t0)"

text \<open>
  Lines 120 to 141: get the interface interface. Unlike line 63, line 124 tests the
  status only: when the call of line 121 answers success and leaves a null
  \<^verbatim>\<open>plugInInterface\<close>, line 131 dereferences it to reach \<^verbatim>\<open>QueryInterface\<close>, and the
  process ends there, before any further call.
\<close>

definition get_interface_interface :: "env \<Rightarrow> step" where
  "get_interface_interface env =
     (let kr = ifPlugIn_kr env;
          t0 = [IOCreatePlugInInterfaceForService usbInterface, IOObjectRelease usbInterface] in
      if kr \<noteq> kIOReturnSuccess then
        Return (t0 @ [printf 125 [ArgInt kr], USBDeviceClose, Release deviceInterface]) 1
      else if \<not> ifPlugIn_nonnull env then Fault t0
      else
        let t1 = t0 @ [QueryInterface interfaceInterface, Release plugInInterface] in
        if ifQuery_result env \<noteq> 0 \<or> \<not> interfaceInterface_nonnull env then
          Return (t1 @ [printf 136 [], USBDeviceClose, Release deviceInterface]) 1
        else Next (t1 @ [printf 141 []]))"

text \<open>Lines 143 to 145: open the interface; the status is printed and not tested.\<close>

definition open_interface :: "env \<Rightarrow> step" where
  "open_interface env =
     Next [USBInterfaceOpen, printf 145 [ArgInt (USBInterfaceOpen_kr env)]]"

text \<open>
  Lines 147 to 159: the endpoint count and the properties of each pipe. The loop counter
  and the bound are both \<^verbatim>\<open>UInt8\<close>: \<open>i + 1\<close> wraps from 255 to 0, as \<^verbatim>\<open>i++\<close> does, and
  the comparison is the unsigned one. The loop may not end, so its result is an option
  and \<open>None\<close> is a run that never leaves the loop.
\<close>

definition pipe_query :: "env \<Rightarrow> UInt8 \<Rightarrow> event list" where
  "pipe_query env i =
     (let out = GetPipeProperties_out env i in
      [GetPipeProperties i,
       printf 157 [ArgInt (ucast i), ArgInt (ucast (direction out)), ArgInt (ucast (number out)),
                   ArgInt (ucast (transferType out)), ArgInt (ucast (maxPacketSize out)),
                   ArgInt (pipe_kr out)]])"

partial_function (option) pipe_loop :: "env \<Rightarrow> UInt8 \<Rightarrow> UInt8 \<Rightarrow> event list \<Rightarrow> event list option" where
  "pipe_loop env i n tr =
     (if i \<le> n then pipe_loop env (i + 1) n (tr @ pipe_query env i) else Some tr)"

declare pipe_loop.simps [code]

definition get_endpoint_info :: "env \<Rightarrow> event list option" where
  "get_endpoint_info env =
     pipe_loop env 1 (numEndpoints_val env)
       [GetNumEndpoints,
        printf 150 [ArgInt (ucast (numEndpoints_val env)), ArgInt (GetNumEndpoints_kr env)]]"

text \<open>Lines 162 to 168: the frame.\<close>

definition dmx :: "UInt8 list" where
  "dmx = (replicate 514 0)[0 := 255, 1 := 225, 4 := 255, 512 := 0xFF, 513 := 0xFF]"

definition sizeof_dmx :: "32 word" where
  "sizeof_dmx = 514"

definition OK_or_FAIL :: "kern_return_t \<Rightarrow> arg" where
  "OK_or_FAIL kr = ArgStr (if kr = kIOReturnSuccess then ''OK'' else ''FAIL'')"

text \<open>Lines 170 to 172 and 175 to 177: one write to pipe 1, one to pipe 2.\<close>

definition write_pipe_1 :: "env \<Rightarrow> event list" where
  "write_pipe_1 env =
     (let kr = WritePipe1_kr env in
      [printf 170 [], WritePipe 1 dmx sizeof_dmx, printf 172 [ArgInt kr, OK_or_FAIL kr]])"

definition write_pipe_2 :: "env \<Rightarrow> event list" where
  "write_pipe_2 env =
     (let kr = WritePipe2_kr env in
      [printf 175 [], WritePipe 2 dmx sizeof_dmx, printf 177 [ArgInt kr, OK_or_FAIL kr]])"

text \<open>
  Lines 182 to 189: the streaming loop from iteration \<open>i\<close> on, with the bound of the
  \<^verbatim>\<open>for\<close> (200 in the source) as \<open>n\<close>. The counter is an \<^verbatim>\<open>int\<close> that stays within
  0 and the bound.
\<close>

function frames_loop :: "env \<Rightarrow> nat \<Rightarrow> nat \<Rightarrow> event list" where
  "frames_loop env n i =
     (if i < n then
        let kr = WritePipe_loop_kr env i in
        if kr \<noteq> kIOReturnSuccess \<and> i = 0 then
          [WritePipe 1 dmx sizeof_dmx, printf 185 [ArgInt kr]]
        else [WritePipe 1 dmx sizeof_dmx, usleep 25000] @ frames_loop env n (i + 1)
      else [])"
  by pat_completeness auto
termination
  by (relation "measure (\<lambda>(env, n, i). n - i)") auto

declare frames_loop.simps [simp del]

text \<open>Lines 180 to 190.\<close>

definition write_continuously :: "env \<Rightarrow> event list" where
  "write_continuously env =
     [printf 180 [], printf 181 []] @ frames_loop env 200 0 @ [printf 190 []]"

text \<open>Lines 193 to 198.\<close>

definition cleanup :: "event list" where
  "cleanup =
     [USBInterfaceClose, Release interfaceInterface, USBDeviceClose, Release deviceInterface,
      printf 198 []]"

subsection \<open>main\<close>

text \<open>
  How a run ends: by a \<^verbatim>\<open>return\<close> of \<open>main\<close>, whose value is the exit status, or
  killed at the null dereference of line 131. A run that never ends has no result.
\<close>

datatype ending = Returned int | Killed

record result =
  trace :: "event list"
  ending :: ending

text \<open>Lines 31 to 145, the steps that can return early.\<close>

definition acquire :: "env \<Rightarrow> step" where
  "acquire env =
     run_steps [find_device env, get_device_interface env, open_device env,
                set_configuration env, find_interface env, get_interface_interface env,
                open_interface env]"

definition main :: "env \<Rightarrow> result option" where
  "main env =
     (case acquire env of
        Return es n \<Rightarrow> Some \<lparr>trace = es, ending = Returned n\<rparr>
      | Fault es \<Rightarrow> Some \<lparr>trace = es, ending = Killed\<rparr>
      | Next es \<Rightarrow>
          (case get_endpoint_info env of
             None \<Rightarrow> None
           | Some ps \<Rightarrow>
               Some \<lparr>trace = es @ ps @ write_pipe_1 env @ write_pipe_2 env @
                              write_continuously env @ cleanup,
                     ending = Returned 0\<rparr>))"

subsection \<open>Observations on environments and traces\<close>

text \<open>
  How far the acquisition gets, read off the tests of the source, each predicate adding the
  negation of the returning tests of one block: \<open>device_found\<close> those of lines 35, 46
  and 53, \<open>device_bound\<close> those of lines 63 and 72 (the device interface was obtained),
  \<open>device_opened\<close> those of lines 80 and 84, \<open>interface_found\<close> those of lines 104
  and 113, \<open>interface_bound\<close> those of lines 124 and 135 and a non-null plug-in
  pointer at line 131 (the interface interface was obtained; no early return and no
  dereference of an untested pointer is left). \<open>plugIn_missing\<close> is the case in which
  line 131 dereferences a null pointer.
\<close>

definition device_found :: "env \<Rightarrow> bool" where
  "device_found env =
     (matchingDict_nonnull env \<and> GetMatchingServices_kr env = KERN_SUCCESS \<and>
      usbDevice_port env \<noteq> 0)"

definition device_bound :: "env \<Rightarrow> bool" where
  "device_bound env =
     (device_found env \<and> devPlugIn_kr env = KERN_SUCCESS \<and> devPlugIn_nonnull env \<and>
      devQuery_result env = 0 \<and> deviceInterface_nonnull env)"

definition device_opened :: "env \<Rightarrow> bool" where
  "device_opened env =
     (device_bound env \<and>
      (USBDeviceOpen_kr env = kIOReturnSuccess \<or> USBDeviceOpenSeize_kr env = kIOReturnSuccess))"

definition interface_found :: "env \<Rightarrow> bool" where
  "interface_found env =
     (device_opened env \<and> CreateInterfaceIterator_kr env = kIOReturnSuccess \<and>
      usbInterface_port env \<noteq> 0)"

definition plugIn_missing :: "env \<Rightarrow> bool" where
  "plugIn_missing env =
     (interface_found env \<and> ifPlugIn_kr env = kIOReturnSuccess \<and> \<not> ifPlugIn_nonnull env)"

definition interface_bound :: "env \<Rightarrow> bool" where
  "interface_bound env =
     (interface_found env \<and> ifPlugIn_kr env = kIOReturnSuccess \<and> ifPlugIn_nonnull env \<and>
      ifQuery_result env = 0 \<and> interfaceInterface_nonnull env)"

text \<open>The calls of a block, and whether control leaves it at its end.\<close>

fun events :: "step \<Rightarrow> event list" where
  "events (Return es n) = es"
| "events (Next es) = es"
| "events (Fault es) = es"

fun falls_through :: "step \<Rightarrow> bool" where
  "falls_through (Next es) = True"
| "falls_through (Return es n) = False"
| "falls_through (Fault es) = False"

text \<open>
  The calls of the pipe loop for an endpoint count \<open>n\<close> when it ends: the queries of the
  pipes 1 to \<open>n\<close>, in order. The calls of one full iteration of the streaming loop.
\<close>

definition pipe_queries :: "env \<Rightarrow> UInt8 \<Rightarrow> event list" where
  "pipe_queries env n = concat (map (\<lambda>j. pipe_query env (of_nat j)) [1 ..< Suc (unat n)])"

definition frame_sent :: "event list" where
  "frame_sent = [WritePipe 1 dmx sizeof_dmx, usleep 25000]"

text \<open>What follows the acquisition when no step returned and the pipe loop ended (lines 147 to 198).\<close>

definition after_acquire :: "env \<Rightarrow> event list" where
  "after_acquire env =
     [GetNumEndpoints,
      printf 150 [ArgInt (ucast (numEndpoints_val env)), ArgInt (GetNumEndpoints_kr env)]] @
     pipe_queries env (numEndpoints_val env) @
     write_pipe_1 env @ write_pipe_2 env @ write_continuously env @ cleanup"

text \<open>
  The calls that give a handle back (the closes and releases of the device interface and
  of the interface interface), and the calls of a trace made on a given handle.
\<close>

definition teardown :: "event \<Rightarrow> bool" where
  "teardown e =
     (e = USBInterfaceClose \<or> e = Release interfaceInterface \<or>
      e = USBDeviceClose \<or> e = Release deviceInterface)"

definition uses :: "handle \<Rightarrow> event list \<Rightarrow> event list" where
  "uses h tr = filter (\<lambda>e. receiver e = Some h) tr"

fun is_WritePipe :: "event \<Rightarrow> bool" where
  "is_WritePipe (WritePipe p buf n) = True"
| "is_WritePipe e = False"

fun is_usleep :: "event \<Rightarrow> bool" where
  "is_usleep (usleep t) = True"
| "is_usleep e = False"

text \<open>The calls that the blocks of lines 31 to 145 can make: all but those of the later blocks.\<close>

fun acquisition_call :: "event \<Rightarrow> bool" where
  "acquisition_call GetNumEndpoints = False"
| "acquisition_call (GetPipeProperties i) = False"
| "acquisition_call (WritePipe p buf n) = False"
| "acquisition_call USBInterfaceClose = False"
| "acquisition_call (usleep t) = False"
| "acquisition_call e = True"

text \<open>
  \<open>reprint l as\<close> replaces the arguments of the \<^verbatim>\<open>printf\<close> of line \<open>l\<close> by \<open>as\<close> and
  leaves every other call as it is.
\<close>

fun reprint :: "nat \<Rightarrow> arg list \<Rightarrow> event \<Rightarrow> event" where
  "reprint l as (printf k bs) = (if k = l then printf l as else printf k bs)"
| "reprint l as e = e"

subsection \<open>Scenarios\<close>

text \<open>
  The end-to-end scenario: every call succeeds, the interface has one pipe, a bulk OUT
  pipe of endpoint number 1.
\<close>

definition scenario_env :: env where
  "scenario_env =
     \<lparr>matchingDict_nonnull = True,
      GetMatchingServices_kr = 0,
      usbDevice_port = 0x1403,
      devPlugIn_kr = 0,
      devPlugIn_nonnull = True,
      devQuery_result = 0,
      deviceInterface_nonnull = True,
      USBDeviceOpen_kr = 0,
      USBDeviceOpenSeize_kr = 0,
      SetConfiguration_kr = 0,
      CreateInterfaceIterator_kr = 0,
      usbInterface_port = 0x1507,
      ifPlugIn_kr = 0,
      ifPlugIn_nonnull = True,
      ifQuery_result = 0,
      interfaceInterface_nonnull = True,
      USBInterfaceOpen_kr = 0,
      GetNumEndpoints_kr = 0,
      numEndpoints_val = 1,
      GetPipeProperties_out =
        (\<lambda>i. \<lparr>pipe_kr = 0, direction = 0, number = 1, transferType = 2,
               maxPacketSize = 64, interval = 0\<rparr>),
      WritePipe1_kr = 0,
      WritePipe2_kr = 0,
      WritePipe_loop_kr = (\<lambda>i. 0)\<rparr>"

text \<open>
  Variants of it: no device interface behind the plug-in (0x80000004, no such interface); no
  interface behind the iterator; a null plug-in for the interface, answered with success;
  both opens of the device refused (0xE00002C5, exclusive
  access); the open
  refused and the seize granted; the configuration and the opening of the interface
  failing; an endpoint count of 255; the two writes of lines 171 and 176 failing; every
  write of the streaming loop failing (0xE00002ED, not responding); the first write of the
  loop succeeding and every later one failing.
\<close>

definition bind_fails_env :: env where
  "bind_fails_env = scenario_env\<lparr>devQuery_result := 0x80000004, deviceInterface_nonnull := False\<rparr>"

definition no_interface_env :: env where
  "no_interface_env = scenario_env\<lparr>usbInterface_port := 0\<rparr>"

definition plugIn_null_env :: env where
  "plugIn_null_env = scenario_env\<lparr>ifPlugIn_nonnull := False\<rparr>"

definition open_refused_env :: env where
  "open_refused_env =
     scenario_env\<lparr>USBDeviceOpen_kr := 0xE00002C5, USBDeviceOpenSeize_kr := 0xE00002C5\<rparr>"

definition seized_env :: env where
  "seized_env = scenario_env\<lparr>USBDeviceOpen_kr := 0xE00002C5\<rparr>"

definition degraded_env :: env where
  "degraded_env =
     scenario_env\<lparr>SetConfiguration_kr := 0xE00002EB, USBInterfaceOpen_kr := 0xE00002C5\<rparr>"

definition many_endpoints_env :: env where
  "many_endpoints_env = scenario_env\<lparr>numEndpoints_val := 255\<rparr>"

definition probes_fail_env :: env where
  "probes_fail_env = scenario_env\<lparr>WritePipe1_kr := 0xE00002ED, WritePipe2_kr := 0xE00002C0\<rparr>"

definition write_fails_env :: env where
  "write_fails_env = scenario_env\<lparr>WritePipe_loop_kr := (\<lambda>i. 0xE00002ED)\<rparr>"

definition later_writes_fail_env :: env where
  "later_writes_fail_env =
     scenario_env\<lparr>WritePipe_loop_kr := (\<lambda>i. if i = 0 then 0 else 0xE00002ED)\<rparr>"

section \<open>Lemmas\<close>

subsection \<open>The pipe loop\<close>

text \<open>
  For an endpoint count below 255 the counter never wraps and the loop ends after the
  queries 1 to \<open>n\<close>; at 255 no iteration leaves the loop, which is shown on the least
  fixed point that defines \<open>pipe_loop\<close>: a result would need a bound other than 255.
\<close>

lemma UInt8_Suc:
  assumes "i \<le> n" "n \<noteq> (255 :: UInt8)"
  shows "unat (i + 1) = Suc (unat i)"
proof -
  have "unat n < 256" using unsigned_less [of n] by simp
  moreover have "unat n \<noteq> 255" using assms(2) by (auto simp: word_unat_eq_iff)
  moreover have "unat i \<le> unat n" using assms(1) by (simp add: word_le_nat_alt)
  ultimately have "unat i + 1 < 256" by arith
  then show ?thesis by (simp add: unat_word_ariths)
qed

lemma pipe_loop_returns_aux:
  "n \<noteq> 255 \<Longrightarrow> unat i \<le> Suc (unat n) \<Longrightarrow> k = Suc (unat n) - unat i \<Longrightarrow>
   pipe_loop env i n tr =
     Some (tr @ concat (map (\<lambda>j. pipe_query env (of_nat j)) [unat i ..< Suc (unat n)]))"
proof (induction k arbitrary: i tr)
  case 0
  then have "\<not> i \<le> n" by (simp add: word_le_nat_alt)
  with 0 show ?case by (subst pipe_loop.simps) simp
next
  case (Suc k)
  then have le: "i \<le> n" by (simp add: word_le_nat_alt)
  have s: "unat (i + 1) = Suc (unat i)" using le Suc.prems(1) by (rule UInt8_Suc)
  have "pipe_loop env (i + 1) n (tr @ pipe_query env i) =
      Some ((tr @ pipe_query env i) @
        concat (map (\<lambda>j. pipe_query env (of_nat j)) [unat (i + 1) ..< Suc (unat n)]))"
    using Suc.prems by (intro Suc.IH) (simp_all add: s)
  moreover have "[unat i ..< Suc (unat n)] = unat i # [Suc (unat i) ..< Suc (unat n)]"
    using le by (simp add: word_le_nat_alt upt_conv_Cons)
  ultimately show ?case using le by (subst pipe_loop.simps) (simp add: s)
qed

lemma pipe_loop_returns:
  "n \<noteq> 255 \<Longrightarrow> pipe_loop env 1 n tr = Some (tr @ pipe_queries env n)"
  using pipe_loop_returns_aux [of n 1 "unat n" env tr] by (simp add: pipe_queries_def)

lemma pipe_loop_Some_bound:
  assumes a: "pipe_loop env i n tr = Some y"
  shows "n \<noteq> 255"
proof (rule pipe_loop.raw_induct [where P = "\<lambda>env i (n :: UInt8) tr y. n \<noteq> 255", OF _ a])
  fix f :: "env \<Rightarrow> UInt8 \<Rightarrow> UInt8 \<Rightarrow> event list \<Rightarrow> event list option"
  fix env i and n :: UInt8 and tr y
  assume IH: "\<And>e j (m :: UInt8) t z. f e j m t = Some z \<Longrightarrow> m \<noteq> 255"
    and eq: "(if i \<le> n then f env (i + 1) n (tr @ pipe_query env i) else Some tr) = Some y"
  show "n \<noteq> 255"
  proof (cases "i \<le> n")
    case True
    with eq have "f env (i + 1) n (tr @ pipe_query env i) = Some y" by simp
    then show ?thesis by (rule IH)
  next
    case False
    have "unat i < 256" using unsigned_less [of i] by simp
    then have "i \<le> 255" by (simp add: word_le_nat_alt)
    with False show ?thesis by auto
  qed
qed

lemma pipe_loop_diverges: "pipe_loop env i 255 tr = None"
  using pipe_loop_Some_bound [of env i 255 tr] by (cases "pipe_loop env i 255 tr") auto

lemma get_endpoint_info_eq:
  "get_endpoint_info env =
     (if numEndpoints_val env = 255 then None
      else Some ([GetNumEndpoints,
                  printf 150 [ArgInt (ucast (numEndpoints_val env)),
                              ArgInt (GetNumEndpoints_kr env)]] @
                 pipe_queries env (numEndpoints_val env)))"
  by (simp add: get_endpoint_info_def pipe_loop_returns pipe_loop_diverges)

lemma in_pipe_queries:
  "e \<in> set (pipe_queries env n) \<Longrightarrow> (\<exists>i. e = GetPipeProperties i) \<or> (\<exists>as. e = printf 157 as)"
  by (auto simp: pipe_queries_def pipe_query_def Let_def)

subsection \<open>The streaming loop\<close>

text \<open>
  Only iteration 0 tests the status of its write; from iteration 1 on every iteration is a
  write and a sleep.
\<close>

lemma frames_loop_first_fails:
  "0 < n \<Longrightarrow> WritePipe_loop_kr env 0 \<noteq> kIOReturnSuccess \<Longrightarrow>
   frames_loop env n 0 =
     [WritePipe 1 dmx sizeof_dmx, printf 185 [ArgInt (WritePipe_loop_kr env 0)]]"
  by (subst frames_loop.simps) simp

lemma frames_loop_later:
  "0 < i \<Longrightarrow> k = n - i \<Longrightarrow> frames_loop env n i = concat (replicate k frame_sent)"
proof (induction k arbitrary: i)
  case 0
  then show ?case by (subst frames_loop.simps) simp
next
  case (Suc k)
  then have "frames_loop env n (i + 1) = concat (replicate k frame_sent)"
    by (intro Suc.IH) simp_all
  moreover from Suc.prems have "n - i = Suc k" "i < n" by simp_all
  ultimately show ?case using Suc.prems(1)
    by (subst frames_loop.simps) (simp add: frame_sent_def Let_def)
qed

lemma frames_loop_first_ok:
  assumes "WritePipe_loop_kr env 0 = kIOReturnSuccess"
  shows "frames_loop env n 0 = concat (replicate n frame_sent)"
proof (cases n)
  case 0
  then show ?thesis by (subst frames_loop.simps) simp
next
  case (Suc m)
  have "frames_loop env n 1 = concat (replicate (n - 1) frame_sent)"
    by (rule frames_loop_later) simp_all
  with Suc assms show ?thesis
    by (subst frames_loop.simps) (simp add: frame_sent_def Let_def)
qed

lemma in_frames_loop:
  "e \<in> set (frames_loop env n i) \<Longrightarrow>
   e = WritePipe 1 dmx sizeof_dmx \<or> e = usleep 25000 \<or> (\<exists>as. e = printf 185 as)"
proof (induction env n i rule: frames_loop.induct)
  case (1 env n i)
  show ?case
  proof (cases "i < n")
    case False
    with "1.prems" show ?thesis by (subst (asm) frames_loop.simps) simp
  next
    case True
    note lt = this
    show ?thesis
    proof (cases "WritePipe_loop_kr env i \<noteq> kIOReturnSuccess \<and> i = 0")
      case True
      with lt "1.prems" show ?thesis by (subst (asm) frames_loop.simps) auto
    next
      case False
      with lt "1.prems" have "e \<in> set frame_sent \<or> e \<in> set (frames_loop env n (i + 1))"
        by (subst (asm) frames_loop.simps) (auto simp: frame_sent_def Let_def)
      with "1.IH" [OF lt refl False] show ?thesis by (auto simp: frame_sent_def)
    qed
  qed
qed

subsection \<open>The paths of main\<close>

text \<open>
  \<open>main\<close> is killed when line 131 dereferences a null plug-in pointer, returns 1 when a
  block of the acquisition returns, never leaves the pipe loop when the acquisition
  succeeds with an endpoint count of 255, and returns 0 otherwise.
\<close>

lemmas blocks = find_device_def get_device_interface_def open_device_def set_configuration_def
  find_interface_def get_interface_interface_def open_interface_def

lemmas reached = interface_bound_def plugIn_missing_def interface_found_def device_opened_def
  device_bound_def device_found_def

lemma acquire_Next_iff: "(\<exists>es. acquire env = Next es) \<longleftrightarrow> interface_bound env"
  by (auto simp: acquire_def blocks Let_def reached split: if_splits)

lemma acquire_Return:
  "acquire env = Return es n \<Longrightarrow> n = 1 \<and> \<not> interface_bound env \<and> \<not> plugIn_missing env"
  by (auto simp: acquire_def blocks Let_def reached split: if_splits)

lemma acquire_Fault: "acquire env = Fault es \<Longrightarrow> plugIn_missing env"
  by (auto simp: acquire_def blocks Let_def reached split: if_splits)

lemma plugIn_missing_not_bound: "plugIn_missing env \<Longrightarrow> \<not> interface_bound env"
  by (simp add: plugIn_missing_def interface_bound_def)

lemma main_eq:
  "main env =
     (if interface_bound env then
        if numEndpoints_val env = 255 then None
        else Some \<lparr>trace = events (acquire env) @
                     [GetNumEndpoints,
                      printf 150 [ArgInt (ucast (numEndpoints_val env)),
                                  ArgInt (GetNumEndpoints_kr env)]] @
                     pipe_queries env (numEndpoints_val env) @
                     write_pipe_1 env @ write_pipe_2 env @ write_continuously env @ cleanup,
                   ending = Returned 0\<rparr>
      else if plugIn_missing env then Some \<lparr>trace = events (acquire env), ending = Killed\<rparr>
      else Some \<lparr>trace = events (acquire env), ending = Returned 1\<rparr>)"
proof (cases "acquire env")
  case (Return es n)
  with acquire_Return [OF Return] show ?thesis by (simp add: main_def)
next
  case (Fault es)
  from acquire_Fault [OF Fault] have "plugIn_missing env" "\<not> interface_bound env"
    by (auto dest: plugIn_missing_not_bound)
  with Fault show ?thesis by (simp add: main_def)
next
  case (Next es)
  then have "interface_bound env" using acquire_Next_iff [of env] by blast
  with Next show ?thesis by (simp add: main_def get_endpoint_info_eq)
qed

subsection \<open>The acquisition, block by block\<close>

text \<open>
  The calls of the acquisition are those of its blocks up to the first that returns, and
  each block is run exactly when the one before fell through.
\<close>

lemma events_run_steps:
  "events (run_steps (s # ss)) =
     events s @ (if falls_through s then events (run_steps ss) else [])"
  by (cases s; cases "run_steps ss") simp_all

lemma falls_through_find_device: "falls_through (find_device env) = device_found env"
  by (auto simp: find_device_def Let_def device_found_def)

lemma falls_through_get_device_interface:
  "device_found env \<Longrightarrow> falls_through (get_device_interface env) = device_bound env"
  by (auto simp: get_device_interface_def Let_def device_bound_def)

lemma falls_through_open_device:
  "device_bound env \<Longrightarrow> falls_through (open_device env) = device_opened env"
  by (auto simp: open_device_def Let_def device_opened_def)

lemma falls_through_set_configuration: "falls_through (set_configuration env)"
  by (simp add: set_configuration_def)

lemma falls_through_find_interface:
  "device_opened env \<Longrightarrow> falls_through (find_interface env) = interface_found env"
  by (auto simp: find_interface_def Let_def interface_found_def)

lemma falls_through_get_interface_interface:
  "interface_found env \<Longrightarrow> falls_through (get_interface_interface env) = interface_bound env"
  by (auto simp: get_interface_interface_def Let_def interface_bound_def)

lemma falls_through_open_interface: "falls_through (open_interface env)"
  by (simp add: open_interface_def)

lemmas falls_through_blocks = falls_through_find_device falls_through_get_device_interface
  falls_through_open_device falls_through_set_configuration falls_through_find_interface
  falls_through_get_interface_interface falls_through_open_interface

lemma reached_mono:
  "interface_bound env \<Longrightarrow> interface_found env"
  "interface_found env \<Longrightarrow> device_opened env"
  "device_opened env \<Longrightarrow> device_bound env"
  "device_bound env \<Longrightarrow> device_found env"
  "plugIn_missing env \<Longrightarrow> interface_found env"
  by (simp_all add: reached)

lemma acquire_events:
  "events (acquire env) =
     events (find_device env) @
     (if device_found env then events (get_device_interface env) else []) @
     (if device_bound env then events (open_device env) else []) @
     (if device_opened env then events (set_configuration env) @ events (find_interface env)
      else []) @
     (if interface_found env then events (get_interface_interface env) else []) @
     (if interface_bound env then events (open_interface env) else [])"
proof (cases "device_found env")
  case False
  then have "\<not> device_bound env" "\<not> device_opened env" "\<not> interface_found env"
    "\<not> interface_bound env" by (auto dest: reached_mono)
  with False show ?thesis
    by (simp add: acquire_def events_run_steps falls_through_blocks)
next
  case df: True
  show ?thesis
  proof (cases "device_bound env")
    case False
    then have "\<not> device_opened env" "\<not> interface_found env" "\<not> interface_bound env"
      by (auto dest: reached_mono)
    with df False show ?thesis
      by (simp add: acquire_def events_run_steps falls_through_blocks)
  next
    case db: True
    show ?thesis
    proof (cases "device_opened env")
      case False
      then have "\<not> interface_found env" "\<not> interface_bound env" by (auto dest: reached_mono)
      with df db False show ?thesis
        by (simp add: acquire_def events_run_steps falls_through_blocks)
    next
      case dop: True
      show ?thesis
      proof (cases "interface_found env")
        case False
        then have "\<not> interface_bound env" by (auto dest: reached_mono)
        with df db dop False show ?thesis
          by (simp add: acquire_def events_run_steps falls_through_blocks)
      next
        case True
        with df db dop show ?thesis
          by (simp add: acquire_def events_run_steps falls_through_blocks)
      qed
    qed
  qed
qed

text \<open>The teardown calls of each block.\<close>

lemma teardown_find_device: "filter teardown (events (find_device env)) = []"
  by (auto simp: find_device_def Let_def teardown_def)

lemma teardown_get_device_interface:
  "filter teardown (events (get_device_interface env)) = []"
  by (auto simp: get_device_interface_def Let_def teardown_def)

lemma teardown_open_device:
  "device_bound env \<Longrightarrow>
   filter teardown (events (open_device env)) =
     (if device_opened env then [] else [Release deviceInterface])"
  by (auto simp: open_device_def Let_def teardown_def device_opened_def)

lemma teardown_set_configuration: "filter teardown (events (set_configuration env)) = []"
  by (simp add: set_configuration_def teardown_def)

lemma teardown_find_interface:
  "device_opened env \<Longrightarrow>
   filter teardown (events (find_interface env)) =
     (if interface_found env then [] else [USBDeviceClose, Release deviceInterface])"
  by (auto simp: find_interface_def Let_def teardown_def interface_found_def)

lemma teardown_get_interface_interface:
  "interface_found env \<Longrightarrow>
   filter teardown (events (get_interface_interface env)) =
     (if interface_bound env \<or> plugIn_missing env then []
      else [USBDeviceClose, Release deviceInterface])"
  by (auto simp: get_interface_interface_def Let_def teardown_def interface_bound_def
      plugIn_missing_def)

lemma teardown_open_interface: "filter teardown (events (open_interface env)) = []"
  by (simp add: open_interface_def teardown_def)

lemmas teardown_blocks = teardown_find_device teardown_get_device_interface
  teardown_open_device teardown_set_configuration teardown_find_interface
  teardown_get_interface_interface teardown_open_interface

lemma acquire_teardown:
  "filter teardown (events (acquire env)) =
     (if interface_bound env \<or> plugIn_missing env then []
      else if device_opened env then [USBDeviceClose, Release deviceInterface]
      else if device_bound env then [Release deviceInterface]
      else [])"
  by (auto simp: acquire_events teardown_blocks dest: reached_mono plugIn_missing_not_bound)

text \<open>The calls of each block on the device interface and on the interface interface.\<close>

lemma uses_append: "uses h (xs @ ys) = uses h xs @ uses h ys"
  by (simp add: uses_def)

lemma uses_if: "uses h (if c then xs else []) = (if c then uses h xs else [])"
  by (simp add: uses_def)

lemma uses_dev_find_device: "uses deviceInterface (events (find_device env)) = []"
  by (simp add: find_device_def Let_def uses_def)

lemma uses_dev_get_device_interface:
  "uses deviceInterface (events (get_device_interface env)) = []"
  by (simp add: get_device_interface_def Let_def uses_def)

lemma uses_dev_open_device:
  "uses deviceInterface (events (open_device env)) =
     USBDeviceOpen #
     (if USBDeviceOpen_kr env = kIOReturnSuccess then []
      else USBDeviceOpenSeize #
        (if USBDeviceOpenSeize_kr env = kIOReturnSuccess then []
         else [Release deviceInterface]))"
  by (simp add: open_device_def Let_def uses_def)

lemma uses_dev_set_configuration:
  "uses deviceInterface (events (set_configuration env)) = [SetConfiguration 1]"
  by (simp add: set_configuration_def uses_def)

lemma uses_dev_find_interface:
  "device_opened env \<Longrightarrow>
   uses deviceInterface (events (find_interface env)) =
     CreateInterfaceIterator request #
     (if interface_found env then [] else [USBDeviceClose, Release deviceInterface])"
  by (auto simp: find_interface_def Let_def uses_def interface_found_def)

lemma uses_dev_get_interface_interface:
  "interface_found env \<Longrightarrow>
   uses deviceInterface (events (get_interface_interface env)) =
     (if interface_bound env \<or> plugIn_missing env then []
      else [USBDeviceClose, Release deviceInterface])"
  by (auto simp: get_interface_interface_def Let_def uses_def interface_bound_def
      plugIn_missing_def)

lemma uses_dev_open_interface: "uses deviceInterface (events (open_interface env)) = []"
  by (simp add: open_interface_def uses_def)

lemmas uses_dev_blocks = uses_dev_find_device uses_dev_get_device_interface
  uses_dev_open_device uses_dev_set_configuration uses_dev_find_interface
  uses_dev_get_interface_interface uses_dev_open_interface

lemma uses_if_find_device: "uses interfaceInterface (events (find_device env)) = []"
  by (simp add: find_device_def Let_def uses_def)

lemma uses_if_get_device_interface:
  "uses interfaceInterface (events (get_device_interface env)) = []"
  by (simp add: get_device_interface_def Let_def uses_def)

lemma uses_if_open_device: "uses interfaceInterface (events (open_device env)) = []"
  by (simp add: open_device_def Let_def uses_def)

lemma uses_if_set_configuration:
  "uses interfaceInterface (events (set_configuration env)) = []"
  by (simp add: set_configuration_def uses_def)

lemma uses_if_find_interface: "uses interfaceInterface (events (find_interface env)) = []"
  by (simp add: find_interface_def Let_def uses_def)

lemma uses_if_get_interface_interface:
  "uses interfaceInterface (events (get_interface_interface env)) = []"
  by (simp add: get_interface_interface_def Let_def uses_def)

lemma uses_if_open_interface:
  "uses interfaceInterface (events (open_interface env)) = [USBInterfaceOpen]"
  by (simp add: open_interface_def uses_def)

lemmas uses_if_blocks = uses_if_find_device uses_if_get_device_interface
  uses_if_open_device uses_if_set_configuration uses_if_find_interface
  uses_if_get_interface_interface uses_if_open_interface

lemma acquire_uses_interface:
  "uses interfaceInterface (events (acquire env)) =
     (if interface_bound env then [USBInterfaceOpen] else [])"
  by (simp add: acquire_events uses_append uses_if uses_if_blocks)

text \<open>
  The calls on the device interface during the acquisition: the open, the seize when the
  open fails, then either the release (both failed), or the configuration, the interface
  iterator and, when a later step returns, the close and the release; nothing more when
  the run is killed at line 131.
\<close>

lemma acquire_uses_device:
  "uses deviceInterface (events (acquire env)) =
     (if \<not> device_bound env then []
      else USBDeviceOpen #
        (if USBDeviceOpen_kr env = kIOReturnSuccess then [] else [USBDeviceOpenSeize]) @
        (if \<not> device_opened env then [Release deviceInterface]
         else SetConfiguration 1 # CreateInterfaceIterator request #
           (if interface_bound env \<or> plugIn_missing env then []
            else [USBDeviceClose, Release deviceInterface])))"
proof (cases "device_bound env")
  case False
  then have "\<not> device_opened env" "\<not> interface_found env" "\<not> interface_bound env"
    "\<not> plugIn_missing env"
    by (auto dest: reached_mono)
  with False show ?thesis
    by (simp add: acquire_events uses_append uses_if uses_dev_blocks)
next
  case db: True
  show ?thesis
  proof (cases "device_opened env")
    case False
    then have n: "\<not> interface_found env" "\<not> interface_bound env" "\<not> plugIn_missing env"
      by (auto dest: reached_mono)
    from db False have "USBDeviceOpen_kr env \<noteq> kIOReturnSuccess"
      "USBDeviceOpenSeize_kr env \<noteq> kIOReturnSuccess" by (simp_all add: device_opened_def)
    with db False n show ?thesis
      by (simp add: acquire_events uses_append uses_if uses_dev_blocks)
  next
    case dop: True
    then have o: "USBDeviceOpen_kr env \<noteq> kIOReturnSuccess \<Longrightarrow>
        USBDeviceOpenSeize_kr env = kIOReturnSuccess" by (simp add: device_opened_def)
    show ?thesis
    proof (cases "interface_found env")
      case False
      then have "\<not> interface_bound env" "\<not> plugIn_missing env" by (auto dest: reached_mono)
      with db dop False o show ?thesis
        by (simp add: acquire_events uses_append uses_if uses_dev_blocks)
    next
      case True
      with db dop o show ?thesis
        by (auto simp: acquire_events uses_append uses_if uses_dev_blocks
            dest: plugIn_missing_not_bound)
    qed
  qed
qed

lemma acquisition_calls_blocks:
  "list_all acquisition_call (events (find_device env))"
  "list_all acquisition_call (events (get_device_interface env))"
  "list_all acquisition_call (events (open_device env))"
  "list_all acquisition_call (events (set_configuration env))"
  "list_all acquisition_call (events (find_interface env))"
  "list_all acquisition_call (events (get_interface_interface env))"
  "list_all acquisition_call (events (open_interface env))"
  by (simp_all add: blocks Let_def)

lemma acquire_acquisition_calls: "list_all acquisition_call (events (acquire env))"
  by (simp add: acquire_events acquisition_calls_blocks)

lemma is_WritePipe_later: "is_WritePipe e \<Longrightarrow> \<not> acquisition_call e"
  by (cases e) simp_all

lemma acquire_no_WritePipe: "filter is_WritePipe (events (acquire env)) = []"
  using acquire_acquisition_calls [of env]
  by (auto simp: filter_empty_conv list_all_iff dest: is_WritePipe_later)

subsection \<open>After the acquisition\<close>

text \<open>
  The pipe queries and the streaming loop make no call on the device interface and give
  no handle back: the closes and releases after the acquisition are those of the cleanup.
\<close>

lemmas tail_blocks = write_pipe_1_def write_pipe_2_def write_continuously_def cleanup_def

lemma count_list_filter: "P x \<Longrightarrow> count_list (filter P xs) x = count_list xs x"
  by (induction xs) simp_all

lemma teardown_pipe_queries: "filter teardown (pipe_queries env n) = []"
  by (auto simp: filter_empty_conv teardown_def dest: in_pipe_queries)

lemma teardown_frames_loop: "filter teardown (frames_loop env n i) = []"
  by (auto simp: filter_empty_conv teardown_def dest: in_frames_loop)

lemma uses_dev_pipe_queries: "uses deviceInterface (pipe_queries env n) = []"
  by (auto simp: uses_def filter_empty_conv dest: in_pipe_queries)

lemma uses_dev_frames_loop: "uses deviceInterface (frames_loop env n i) = []"
  by (auto simp: uses_def filter_empty_conv dest: in_frames_loop)

lemma main_cases:
  "main env =
     (if interface_bound env then
        if numEndpoints_val env = 255 then None
        else Some \<lparr>trace = events (acquire env) @ after_acquire env, ending = Returned 0\<rparr>
      else if plugIn_missing env then Some \<lparr>trace = events (acquire env), ending = Killed\<rparr>
      else Some \<lparr>trace = events (acquire env), ending = Returned 1\<rparr>)"
  by (simp add: main_eq after_acquire_def)

text \<open>
  The run that line 131 kills has called neither \<^verbatim>\<open>USBDeviceClose\<close> nor
  \<^verbatim>\<open>Release\<close> on the device interface, which it had obtained and opened.
\<close>

lemma killed_at_line_131:
  assumes "plugIn_missing env"
  shows "main env = Some \<lparr>trace = events (acquire env), ending = Killed\<rparr>"
    and "filter teardown (events (acquire env)) = []"
    and "device_opened env"
  using assms plugIn_missing_not_bound [OF assms]
  by (auto simp: main_cases acquire_teardown dest: reached_mono)

lemma teardown_after_acquire:
  "filter teardown (after_acquire env) =
     [USBInterfaceClose, Release interfaceInterface, USBDeviceClose, Release deviceInterface]"
  by (simp add: after_acquire_def tail_blocks Let_def teardown_pipe_queries
      teardown_frames_loop) (simp add: teardown_def)

lemma uses_Cons: "uses h (x # xs) = (if receiver x = Some h then x # uses h xs else uses h xs)"
  by (simp add: uses_def)

lemma uses_Nil: "uses h [] = []"
  by (simp add: uses_def)

lemma uses_dev_after_acquire:
  "uses deviceInterface (after_acquire env) = [USBDeviceClose, Release deviceInterface]"
  by (simp add: after_acquire_def tail_blocks Let_def uses_append uses_dev_pipe_queries
      uses_dev_frames_loop uses_Cons uses_Nil)

lemma last_uses_if_after_acquire:
  "last (uses interfaceInterface (after_acquire env)) = Release interfaceInterface"
  by (simp add: after_acquire_def tail_blocks uses_append uses_Cons uses_Nil)

lemma uses_if_after_acquire_nonempty: "uses interfaceInterface (after_acquire env) \<noteq> []"
  by (simp add: after_acquire_def tail_blocks uses_append uses_Cons uses_Nil)

lemma WritePipe_frames_sent:
  "filter is_WritePipe (concat (replicate n frame_sent)) =
     replicate n (WritePipe 1 dmx sizeof_dmx)"
  by (induction n) (simp_all add: frame_sent_def)

lemma usleep_frames_sent: "count_list (concat (replicate n frame_sent)) (usleep 25000) = n"
  by (induction n) (simp_all add: frame_sent_def)

lemma is_usleep_frames_sent:
  "filter is_usleep (concat (replicate n frame_sent)) = replicate n (usleep 25000)"
  by (induction n) (simp_all add: frame_sent_def)

lemma last_frames_sent: "0 < n \<Longrightarrow> last (concat (replicate n frame_sent)) = usleep 25000"
  by (induction n) (simp_all add: frame_sent_def)

lemma WritePipe_pipe_queries: "filter is_WritePipe (pipe_queries env n) = []"
  by (auto simp: filter_empty_conv dest: in_pipe_queries)

lemma usleep_pipe_queries: "filter is_usleep (pipe_queries env n) = []"
  by (auto simp: filter_empty_conv dest: in_pipe_queries)

lemma is_usleep_later: "is_usleep e \<Longrightarrow> \<not> acquisition_call e"
  by (cases e) simp_all

lemma acquire_no_is_usleep: "filter is_usleep (events (acquire env)) = []"
  using acquire_acquisition_calls [of env]
  by (auto simp: filter_empty_conv list_all_iff dest: is_usleep_later)

lemma WritePipe_after_acquire:
  "WritePipe_loop_kr env 0 = kIOReturnSuccess \<Longrightarrow>
   filter is_WritePipe (after_acquire env) =
     WritePipe 1 dmx sizeof_dmx # WritePipe 2 dmx sizeof_dmx #
     replicate 200 (WritePipe 1 dmx sizeof_dmx)"
  by (simp add: after_acquire_def tail_blocks Let_def WritePipe_pipe_queries
      frames_loop_first_ok WritePipe_frames_sent)

lemma usleep_after_acquire:
  "WritePipe_loop_kr env 0 = kIOReturnSuccess \<Longrightarrow>
   filter is_usleep (after_acquire env) = replicate 200 (usleep 25000)"
  by (simp add: after_acquire_def tail_blocks Let_def usleep_pipe_queries
      frames_loop_first_ok is_usleep_frames_sent)

lemma open_device_refused:
  "USBDeviceOpen_kr env \<noteq> kIOReturnSuccess \<Longrightarrow>
   USBDeviceOpenSeize_kr env \<noteq> kIOReturnSuccess \<Longrightarrow>
   events (open_device env) =
     [USBDeviceOpen, printf 81 [ArgInt (USBDeviceOpen_kr env)], USBDeviceOpenSeize,
      printf 85 [ArgInt (USBDeviceOpenSeize_kr env)], Release deviceInterface]"
  by (simp add: open_device_def Let_def)

subsection \<open>Statuses that are only printed\<close>

text \<open>
  A status that the program prints and never tests changes the arguments of one print and
  nothing else: the run with another status is the same run with that print replaced.
\<close>

lemma reprint_blocks:
  "l \<notin> {31, 36, 47, 54, 57} \<Longrightarrow>
   map (reprint l as) (events (find_device env)) = events (find_device env)"
  "l \<notin> {64, 73, 76} \<Longrightarrow>
   map (reprint l as) (events (get_device_interface env)) = events (get_device_interface env)"
  "l \<notin> {81, 85, 90} \<Longrightarrow>
   map (reprint l as) (events (open_device env)) = events (open_device env)"
  "l \<noteq> 94 \<Longrightarrow>
   map (reprint l as) (events (set_configuration env)) = events (set_configuration env)"
  "l \<notin> {105, 114} \<Longrightarrow>
   map (reprint l as) (events (find_interface env)) = events (find_interface env)"
  "l \<notin> {125, 136, 141} \<Longrightarrow>
   map (reprint l as) (events (get_interface_interface env)) =
     events (get_interface_interface env)"
  "l \<noteq> 145 \<Longrightarrow>
   map (reprint l as) (events (open_interface env)) = events (open_interface env)"
  by (simp_all add: blocks Let_def)

lemma reprint_pipe_queries:
  "l \<noteq> 157 \<Longrightarrow> map (reprint l as) (pipe_queries env n) = pipe_queries env n"
  by (rule map_idI) (auto dest: in_pipe_queries)

lemma reprint_frames_loop:
  "l \<noteq> 185 \<Longrightarrow> map (reprint l as) (frames_loop env n i) = frames_loop env n i"
  by (rule map_idI) (auto dest: in_frames_loop)

lemma reprint_acquire:
  "l \<notin> {31, 36, 47, 54, 57, 64, 73, 76, 81, 85, 90, 94, 105, 114, 125, 136, 141, 145} \<Longrightarrow>
   map (reprint l as) (events (acquire env)) = events (acquire env)"
  by (simp add: acquire_events reprint_blocks)

lemma reprint_after_acquire:
  "l \<notin> {150, 157, 170, 172, 175, 177, 180, 181, 185, 190, 198} \<Longrightarrow>
   map (reprint l as) (after_acquire env) = after_acquire env"
  by (simp add: after_acquire_def tail_blocks Let_def reprint_pipe_queries reprint_frames_loop)

lemma frames_loop_cong:
  "WritePipe_loop_kr env' = WritePipe_loop_kr env \<Longrightarrow>
   frames_loop env' n i = frames_loop env n i"
proof (induction env n i rule: frames_loop.induct)
  case (1 env n i)
  show ?case
  proof (cases "i < n \<and> \<not> (WritePipe_loop_kr env i \<noteq> kIOReturnSuccess \<and> i = 0)")
    case True
    then have "frames_loop env' n (i + 1) = frames_loop env n (i + 1)"
      using "1.IH" [OF _ refl] "1.prems" by simp
    then show ?thesis
      using "1.prems" True
      by (subst frames_loop.simps, subst (2) frames_loop.simps) (simp add: Let_def)
  next
    case False
    then show ?thesis
      using "1.prems"
      by (subst frames_loop.simps, subst (2) frames_loop.simps) (auto simp: Let_def)
  qed
qed

lemma pipe_queries_cong:
  "GetPipeProperties_out env' = GetPipeProperties_out env \<Longrightarrow>
   pipe_queries env' n = pipe_queries env n"
  by (simp add: pipe_queries_def pipe_query_def)

text \<open>The statuses of lines 93 and 144 reach the prints of lines 94 and 145 only.\<close>

lemma acquire_SetConfiguration_kr:
  "events (acquire (env\<lparr>SetConfiguration_kr := c\<rparr>)) =
     map (reprint 94 [ArgInt c]) (events (acquire env))"
proof -
  let ?env' = "env\<lparr>SetConfiguration_kr := c\<rparr>"
  have r: "device_found ?env' = device_found env" "device_bound ?env' = device_bound env"
    "device_opened ?env' = device_opened env" "interface_found ?env' = interface_found env"
    "interface_bound ?env' = interface_bound env"
    by (simp_all add: reached)
  have b: "events (find_device ?env') = events (find_device env)"
    "events (get_device_interface ?env') = events (get_device_interface env)"
    "events (open_device ?env') = events (open_device env)"
    "events (find_interface ?env') = events (find_interface env)"
    "events (get_interface_interface ?env') = events (get_interface_interface env)"
    "events (open_interface ?env') = events (open_interface env)"
    by (simp_all add: blocks Let_def)
  have s: "events (set_configuration ?env') =
      map (reprint 94 [ArgInt c]) (events (set_configuration env))"
    by (simp add: blocks)
  show ?thesis
    unfolding acquire_events [of ?env'] r b s
    by (simp add: acquire_events reprint_blocks)
qed

lemma acquire_USBInterfaceOpen_kr:
  "events (acquire (env\<lparr>USBInterfaceOpen_kr := oi\<rparr>)) =
     map (reprint 145 [ArgInt oi]) (events (acquire env))"
proof -
  let ?env' = "env\<lparr>USBInterfaceOpen_kr := oi\<rparr>"
  have r: "device_found ?env' = device_found env" "device_bound ?env' = device_bound env"
    "device_opened ?env' = device_opened env" "interface_found ?env' = interface_found env"
    "interface_bound ?env' = interface_bound env"
    by (simp_all add: reached)
  have b: "events (find_device ?env') = events (find_device env)"
    "events (get_device_interface ?env') = events (get_device_interface env)"
    "events (open_device ?env') = events (open_device env)"
    "events (set_configuration ?env') = events (set_configuration env)"
    "events (find_interface ?env') = events (find_interface env)"
    "events (get_interface_interface ?env') = events (get_interface_interface env)"
    by (simp_all add: blocks Let_def)
  have s: "events (open_interface ?env') =
      map (reprint 145 [ArgInt oi]) (events (open_interface env))"
    by (simp add: blocks)
  show ?thesis
    unfolding acquire_events [of ?env'] r b s
    by (simp add: acquire_events reprint_blocks)
qed

lemma main_SetConfiguration_kr:
  "main (env\<lparr>SetConfiguration_kr := c\<rparr>) =
     map_option (\<lambda>r. r\<lparr>trace := map (reprint 94 [ArgInt c]) (trace r)\<rparr>) (main env)"
proof -
  let ?env' = "env\<lparr>SetConfiguration_kr := c\<rparr>"
  have r: "interface_bound ?env' = interface_bound env"
    "plugIn_missing ?env' = plugIn_missing env" by (simp_all add: reached)
  have n: "numEndpoints_val ?env' = numEndpoints_val env" by simp
  have a: "after_acquire ?env' = after_acquire env"
    by (simp add: after_acquire_def tail_blocks pipe_queries_cong [of ?env' env]
        frames_loop_cong [of ?env' env])
  show ?thesis
    unfolding main_cases [of ?env'] r n a acquire_SetConfiguration_kr
    by (simp add: main_cases reprint_after_acquire)
qed

lemma main_USBInterfaceOpen_kr:
  "main (env\<lparr>USBInterfaceOpen_kr := oi\<rparr>) =
     map_option (\<lambda>r. r\<lparr>trace := map (reprint 145 [ArgInt oi]) (trace r)\<rparr>) (main env)"
proof -
  let ?env' = "env\<lparr>USBInterfaceOpen_kr := oi\<rparr>"
  have r: "interface_bound ?env' = interface_bound env"
    "plugIn_missing ?env' = plugIn_missing env" by (simp_all add: reached)
  have n: "numEndpoints_val ?env' = numEndpoints_val env" by simp
  have a: "after_acquire ?env' = after_acquire env"
    by (simp add: after_acquire_def tail_blocks pipe_queries_cong [of ?env' env]
        frames_loop_cong [of ?env' env])
  show ?thesis
    unfolding main_cases [of ?env'] r n a acquire_USBInterfaceOpen_kr
    by (simp add: main_cases reprint_after_acquire)
qed

lemma main_WritePipe1_kr:
  "main (env\<lparr>WritePipe1_kr := a\<rparr>) =
     map_option (\<lambda>r. r\<lparr>trace := map (reprint 172 [ArgInt a, OK_or_FAIL a]) (trace r)\<rparr>)
       (main env)"
proof -
  let ?env' = "env\<lparr>WritePipe1_kr := a\<rparr>"
  have r: "interface_bound ?env' = interface_bound env"
    "plugIn_missing ?env' = plugIn_missing env" by (simp_all add: reached)
  have n: "numEndpoints_val ?env' = numEndpoints_val env" by simp
  have q: "acquire ?env' = acquire env" by (simp add: acquire_def blocks Let_def)
  have a: "after_acquire ?env' =
      map (reprint 172 [ArgInt a, OK_or_FAIL a]) (after_acquire env)"
    by (simp add: after_acquire_def tail_blocks Let_def pipe_queries_cong [of ?env' env]
        frames_loop_cong [of ?env' env] reprint_pipe_queries reprint_frames_loop)
  show ?thesis
    unfolding main_cases [of ?env'] r n a q
    by (simp add: main_cases reprint_acquire)
qed

lemma main_WritePipe2_kr:
  "main (env\<lparr>WritePipe2_kr := b\<rparr>) =
     map_option (\<lambda>r. r\<lparr>trace := map (reprint 177 [ArgInt b, OK_or_FAIL b]) (trace r)\<rparr>)
       (main env)"
proof -
  let ?env' = "env\<lparr>WritePipe2_kr := b\<rparr>"
  have r: "interface_bound ?env' = interface_bound env"
    "plugIn_missing ?env' = plugIn_missing env" by (simp_all add: reached)
  have n: "numEndpoints_val ?env' = numEndpoints_val env" by simp
  have q: "acquire ?env' = acquire env" by (simp add: acquire_def blocks Let_def)
  have a: "after_acquire ?env' =
      map (reprint 177 [ArgInt b, OK_or_FAIL b]) (after_acquire env)"
    by (simp add: after_acquire_def tail_blocks Let_def pipe_queries_cong [of ?env' env]
        frames_loop_cong [of ?env' env] reprint_pipe_queries reprint_frames_loop)
  show ?thesis
    unfolding main_cases [of ?env'] r n a q
    by (simp add: main_cases reprint_acquire)
qed

subsection \<open>The frame\<close>

lemma dmx_length: "length dmx = 514"
  by (simp add: dmx_def)

lemma dmx_nth:
  "j < 514 \<Longrightarrow>
   dmx ! j = (if j = 0 then 255 else if j = 1 then 225 else if j = 4 then 255
              else if j = 512 then 255 else if j = 513 then 255 else 0)"
  by (simp add: dmx_def nth_list_update)

lemma criteria_find_device:
  "device_found env \<Longrightarrow>
   CFDictionarySetValue kUSBVendorID 0x15E4 \<in> set (events (find_device env)) \<and>
   CFDictionarySetValue kUSBProductID 0x0053 \<in> set (events (find_device env))"
  by (simp add: find_device_def Let_def device_found_def VID_def PID_def)

subsection \<open>The scenarios\<close>

lemma scenario_reached:
  "device_found scenario_env" "device_bound scenario_env" "device_opened scenario_env"
  "interface_found scenario_env" "interface_bound scenario_env"
  "\<not> plugIn_missing scenario_env"
  by (simp_all add: scenario_env_def reached KERN_SUCCESS_def kIOReturnSuccess_def)

lemma bind_fails_reached:
  "device_found bind_fails_env" "\<not> device_bound bind_fails_env"
  "\<not> device_opened bind_fails_env" "\<not> interface_found bind_fails_env"
  "\<not> interface_bound bind_fails_env"
  "\<not> plugIn_missing bind_fails_env"
  by (simp_all add: bind_fails_env_def scenario_env_def reached KERN_SUCCESS_def
      kIOReturnSuccess_def)

lemma no_interface_reached:
  "device_found no_interface_env" "device_bound no_interface_env"
  "device_opened no_interface_env" "\<not> interface_found no_interface_env"
  "\<not> interface_bound no_interface_env"
  "\<not> plugIn_missing no_interface_env"
  by (simp_all add: no_interface_env_def scenario_env_def reached KERN_SUCCESS_def
      kIOReturnSuccess_def)

lemma open_refused_reached:
  "device_found open_refused_env" "device_bound open_refused_env"
  "\<not> device_opened open_refused_env" "\<not> interface_found open_refused_env"
  "\<not> interface_bound open_refused_env"
  "\<not> plugIn_missing open_refused_env"
  by (simp_all add: open_refused_env_def scenario_env_def reached KERN_SUCCESS_def
      kIOReturnSuccess_def)

lemma write_fails_reached:
  "device_found write_fails_env" "device_bound write_fails_env" "device_opened write_fails_env"
  "interface_found write_fails_env" "interface_bound write_fails_env"
  "\<not> plugIn_missing write_fails_env"
  by (simp_all add: write_fails_env_def scenario_env_def reached KERN_SUCCESS_def
      kIOReturnSuccess_def)

lemma scenario_numEndpoints:
  "numEndpoints_val scenario_env = 1" "numEndpoints_val write_fails_env = 1"
  by (simp_all add: scenario_env_def write_fails_env_def)

lemma later_writes_fail_reached:
  "device_found later_writes_fail_env" "device_bound later_writes_fail_env"
  "device_opened later_writes_fail_env" "interface_found later_writes_fail_env"
  "interface_bound later_writes_fail_env"
  "\<not> plugIn_missing later_writes_fail_env"
  by (simp_all add: later_writes_fail_env_def scenario_env_def reached KERN_SUCCESS_def
      kIOReturnSuccess_def)

lemma later_writes_fail_facts:
  "numEndpoints_val later_writes_fail_env = 1"
  "WritePipe_loop_kr later_writes_fail_env 0 = kIOReturnSuccess"
  "WritePipe_loop_kr later_writes_fail_env 1 \<noteq> kIOReturnSuccess"
  by (simp_all add: later_writes_fail_env_def scenario_env_def kIOReturnSuccess_def)

lemma seized_reached:
  "device_found seized_env" "device_bound seized_env" "device_opened seized_env"
  "interface_found seized_env" "interface_bound seized_env"
  "\<not> plugIn_missing seized_env"
  by (simp_all add: seized_env_def scenario_env_def reached KERN_SUCCESS_def
      kIOReturnSuccess_def)

lemma seized_facts:
  "numEndpoints_val seized_env = 1"
  "USBDeviceOpen_kr seized_env \<noteq> kIOReturnSuccess"
  "USBDeviceOpenSeize_kr seized_env = kIOReturnSuccess"
  by (simp_all add: seized_env_def scenario_env_def kIOReturnSuccess_def)

lemma open_refused_facts:
  "USBDeviceOpen_kr open_refused_env = 0xE00002C5"
  "USBDeviceOpenSeize_kr open_refused_env = 0xE00002C5"
  "USBDeviceOpen_kr open_refused_env \<noteq> kIOReturnSuccess"
  "USBDeviceOpenSeize_kr open_refused_env \<noteq> kIOReturnSuccess"
  by (simp_all add: open_refused_env_def scenario_env_def kIOReturnSuccess_def)

lemma many_endpoints_reached: "interface_bound many_endpoints_env"
  by (simp add: many_endpoints_env_def scenario_env_def reached KERN_SUCCESS_def
      kIOReturnSuccess_def)

lemma plugIn_null_reached:
  "device_found plugIn_null_env" "device_bound plugIn_null_env" "device_opened plugIn_null_env"
  "interface_found plugIn_null_env" "\<not> interface_bound plugIn_null_env"
  "plugIn_missing plugIn_null_env"
  by (simp_all add: plugIn_null_env_def scenario_env_def reached KERN_SUCCESS_def
      kIOReturnSuccess_def)

lemma scenario_first_write: "WritePipe_loop_kr scenario_env 0 = kIOReturnSuccess"
  by (simp add: scenario_env_def kIOReturnSuccess_def)

section \<open>The claims\<close>

text \<open>
  Claim C1 says that on every exit path each acquired handle is given back by a close
  followed by a release. When both opens of the device fail (lines 80 to 87) the device
  interface, obtained at line 68, is released at line 86 without
  \<^verbatim>\<open>USBDeviceClose\<close>: the device was never opened. The run below returns 1 there, and
  its only close or release is that release.
\<close>

theorem C1_counterexample:
  "device_bound open_refused_env \<and>
   main open_refused_env =
     Some \<lparr>trace = events (find_device open_refused_env) @
             events (get_device_interface open_refused_env) @
             [USBDeviceOpen, printf 81 [ArgInt 0xE00002C5], USBDeviceOpenSeize,
              printf 85 [ArgInt 0xE00002C5], Release deviceInterface],
           ending = Returned 1\<rparr> \<and>
   count_list
     (events (find_device open_refused_env) @ events (get_device_interface open_refused_env) @
      [USBDeviceOpen, printf 81 [ArgInt 0xE00002C5], USBDeviceOpenSeize,
       printf 85 [ArgInt 0xE00002C5], Release deviceInterface])
     USBDeviceClose = 0 \<and>
   filter teardown
     (events (find_device open_refused_env) @ events (get_device_interface open_refused_env) @
      [USBDeviceOpen, printf 81 [ArgInt 0xE00002C5], USBDeviceOpenSeize,
       printf 85 [ArgInt 0xE00002C5], Release deviceInterface]) =
     [Release deviceInterface]"
proof -
  have e: "events (acquire open_refused_env) =
      events (find_device open_refused_env) @ events (get_device_interface open_refused_env) @
      [USBDeviceOpen, printf 81 [ArgInt 0xE00002C5], USBDeviceOpenSeize,
       printf 85 [ArgInt 0xE00002C5], Release deviceInterface]"
    using open_device_refused [OF open_refused_facts(3,4)]
    by (simp add: acquire_events open_refused_reached open_refused_facts(1,2))
  have t: "filter teardown (events (acquire open_refused_env)) = [Release deviceInterface]"
    by (simp add: acquire_teardown open_refused_reached)
  have "count_list (events (acquire open_refused_env)) USBDeviceClose =
      count_list (filter teardown (events (acquire open_refused_env))) USBDeviceClose"
    by (rule count_list_filter [symmetric]) (simp add: teardown_def)
  then have c: "count_list (events (acquire open_refused_env)) USBDeviceClose = 0"
    unfolding t by simp
  have m: "main open_refused_env =
      Some \<lparr>trace = events (acquire open_refused_env), ending = Returned 1\<rparr>"
    by (simp add: main_cases open_refused_reached)
  from m t c show ?thesis
    unfolding e by (simp add: open_refused_reached)
qed

text \<open>
  Claim C1, amended: on every path on which \<open>main\<close> returns, each handle that was
  obtained is released exactly once, in reverse order of acquisition, the close of a handle
  coming before its release, and no handle that was not obtained is touched; the device is
  closed only if one of its opens succeeded. \<open>main\<close> returns unless line 131 meets a null
  plug-in pointer (\<open>plugIn_missing\<close>), or the acquisition succeeded and the endpoint
  count is 255; what a run does in these two cases is no part of the statement. When
  \<open>main\<close> returns, \<^verbatim>\<open>Release\<close> is called once on the device interface if it was
  obtained (\<open>device_bound\<close>) and never otherwise, and likewise on the interface interface
  (\<open>interface_bound\<close>); the closes and releases of the whole run are, in order: those of
  lines 193 to 196 after a full acquisition; the close and the release of the device when a
  step after the open returned (lines 106, 115, 126, 137); the release alone when both
  opens failed (line 86); none when the device interface was not obtained. The release is
  the last call on its handle, and a handle that was not obtained receives no call at all.
\<close>

theorem C1_handles_released_once_in_reverse_order:
  "((\<exists>t n. main env = Some \<lparr>trace = t, ending = Returned n\<rparr>) \<longleftrightarrow>
      \<not> plugIn_missing env \<and> \<not> (interface_bound env \<and> numEndpoints_val env = 255)) \<and>
   (\<not> plugIn_missing env \<and> \<not> (interface_bound env \<and> numEndpoints_val env = 255) \<longrightarrow>
     (\<exists>r. main env = Some r \<and>
        ending r = Returned (if interface_bound env then 0 else 1) \<and>
        count_list (trace r) (Release deviceInterface) = (if device_bound env then 1 else 0) \<and>
        count_list (trace r) (Release interfaceInterface) =
          (if interface_bound env then 1 else 0) \<and>
        filter teardown (trace r) =
          (if interface_bound env then
             [USBInterfaceClose, Release interfaceInterface, USBDeviceClose,
              Release deviceInterface]
           else if device_opened env then [USBDeviceClose, Release deviceInterface]
           else if device_bound env then [Release deviceInterface]
           else []) \<and>
        (if device_bound env then
           last (uses deviceInterface (trace r)) = Release deviceInterface
         else uses deviceInterface (trace r) = []) \<and>
        (if interface_bound env then
           last (uses interfaceInterface (trace r)) = Release interfaceInterface
         else uses interfaceInterface (trace r) = [])))"
proof (intro conjI impI)
  show "(\<exists>t n. main env = Some \<lparr>trace = t, ending = Returned n\<rparr>) \<longleftrightarrow>
      \<not> plugIn_missing env \<and> \<not> (interface_bound env \<and> numEndpoints_val env = 255)"
    by (auto simp: main_cases dest: plugIn_missing_not_bound)
next
  assume ret: "\<not> plugIn_missing env \<and> \<not> (interface_bound env \<and> numEndpoints_val env = 255)"
  then have pm: "\<not> plugIn_missing env" by simp
  define T where
    "T = events (acquire env) @ (if interface_bound env then after_acquire env else [])"
  define r where
    "r = \<lparr>trace = T, ending = Returned (if interface_bound env then 0 else 1)\<rparr>"
  have m: "main env = Some r"
    using ret by (auto simp: main_cases r_def T_def)
  have td: "filter teardown T =
          (if interface_bound env then
             [USBInterfaceClose, Release interfaceInterface, USBDeviceClose,
              Release deviceInterface]
           else if device_opened env then [USBDeviceClose, Release deviceInterface]
           else if device_bound env then [Release deviceInterface]
           else [])"
    using pm by (simp add: T_def acquire_teardown teardown_after_acquire)
  have "count_list T (Release deviceInterface) =
      count_list (filter teardown T) (Release deviceInterface)"
    by (rule count_list_filter [symmetric]) (simp add: teardown_def)
  then have c1: "count_list T (Release deviceInterface) = (if device_bound env then 1 else 0)"
    unfolding td by (auto dest: reached_mono)
  have "count_list T (Release interfaceInterface) =
      count_list (filter teardown T) (Release interfaceInterface)"
    by (rule count_list_filter [symmetric]) (simp add: teardown_def)
  then have c2: "count_list T (Release interfaceInterface) =
      (if interface_bound env then 1 else 0)"
    unfolding td by auto
  have u1: "if device_bound env then
           last (uses deviceInterface T) = Release deviceInterface
         else uses deviceInterface T = []"
  proof (cases "interface_bound env")
    case True
    then have "device_bound env" by (auto dest: reached_mono)
    with True show ?thesis
      by (simp add: T_def uses_append uses_dev_after_acquire)
  next
    case False
    with pm show ?thesis
      by (simp add: T_def acquire_uses_device)
  qed
  have u2: "if interface_bound env then
           last (uses interfaceInterface T) = Release interfaceInterface
         else uses interfaceInterface T = []"
    by (simp add: T_def uses_append acquire_uses_interface last_uses_if_after_acquire
        uses_if_after_acquire_nonempty)
  show "\<exists>r. main env = Some r \<and>
        ending r = Returned (if interface_bound env then 0 else 1) \<and>
        count_list (trace r) (Release deviceInterface) = (if device_bound env then 1 else 0) \<and>
        count_list (trace r) (Release interfaceInterface) =
          (if interface_bound env then 1 else 0) \<and>
        filter teardown (trace r) =
          (if interface_bound env then
             [USBInterfaceClose, Release interfaceInterface, USBDeviceClose,
              Release deviceInterface]
           else if device_opened env then [USBDeviceClose, Release deviceInterface]
           else if device_bound env then [Release deviceInterface]
           else []) \<and>
        (if device_bound env then
           last (uses deviceInterface (trace r)) = Release deviceInterface
         else uses deviceInterface (trace r) = []) \<and>
        (if interface_bound env then
           last (uses interfaceInterface (trace r)) = Release interfaceInterface
         else uses interfaceInterface (trace r) = [])"
  proof (intro exI conjI)
    show "main env = Some r" by (rule m)
  qed (simp_all add: r_def td c1 c2 u1 u2)
qed

text \<open>
  C1, amended, at the end-to-end scenario (full teardown), with no interface found (close
  and release of the device), with both opens refused (the release alone) and with no
  device interface obtained (nothing to give back).
\<close>

theorem C1_witness:
  "(\<exists>r. main scenario_env = Some r \<and> ending r = Returned 0 \<and>
      count_list (trace r) (Release deviceInterface) = 1 \<and>
      count_list (trace r) (Release interfaceInterface) = 1 \<and>
      filter teardown (trace r) =
        [USBInterfaceClose, Release interfaceInterface, USBDeviceClose,
         Release deviceInterface] \<and>
      last (uses deviceInterface (trace r)) = Release deviceInterface \<and>
      last (uses interfaceInterface (trace r)) = Release interfaceInterface) \<and>
   (\<exists>r. main no_interface_env = Some r \<and> ending r = Returned 1 \<and>
      count_list (trace r) (Release deviceInterface) = 1 \<and>
      count_list (trace r) (Release interfaceInterface) = 0 \<and>
      filter teardown (trace r) = [USBDeviceClose, Release deviceInterface] \<and>
      last (uses deviceInterface (trace r)) = Release deviceInterface \<and>
      uses interfaceInterface (trace r) = []) \<and>
   (\<exists>r. main open_refused_env = Some r \<and> ending r = Returned 1 \<and>
      count_list (trace r) (Release deviceInterface) = 1 \<and>
      count_list (trace r) (Release interfaceInterface) = 0 \<and>
      filter teardown (trace r) = [Release deviceInterface] \<and>
      last (uses deviceInterface (trace r)) = Release deviceInterface \<and>
      uses interfaceInterface (trace r) = []) \<and>
   (\<exists>r. main bind_fails_env = Some r \<and> ending r = Returned 1 \<and>
      count_list (trace r) (Release deviceInterface) = 0 \<and>
      count_list (trace r) (Release interfaceInterface) = 0 \<and>
      filter teardown (trace r) = [] \<and>
      uses deviceInterface (trace r) = [] \<and>
      uses interfaceInterface (trace r) = [])"
  using C1_handles_released_once_in_reverse_order [of scenario_env, THEN conjunct2]
    C1_handles_released_once_in_reverse_order [of no_interface_env, THEN conjunct2]
    C1_handles_released_once_in_reverse_order [of open_refused_env, THEN conjunct2]
    C1_handles_released_once_in_reverse_order [of bind_fails_env, THEN conjunct2]
  by (simp add: scenario_reached open_refused_reached scenario_numEndpoints
      no_interface_reached bind_fails_reached)

text \<open>
  Claim C2: when the first write of the streaming loop returns a status other than
  success, the loop makes that one write, prints the status and stops: no further write and
  no sleep. This holds for every positive bound of the loop, in particular for the 200 of
  lines 180 to 190, and the run then goes on to the cleanup and exit status 0.
\<close>

theorem C2_first_send_fails:
  assumes "WritePipe_loop_kr env 0 \<noteq> kIOReturnSuccess"
  shows "(0 < n \<longrightarrow>
            frames_loop env n 0 =
              [WritePipe 1 dmx sizeof_dmx, printf 185 [ArgInt (WritePipe_loop_kr env 0)]]) \<and>
         write_continuously env =
           [printf 180 [], printf 181 [], WritePipe 1 dmx sizeof_dmx,
            printf 185 [ArgInt (WritePipe_loop_kr env 0)], printf 190 []] \<and>
         length (filter is_WritePipe (write_continuously env)) = 1 \<and>
         filter is_usleep (write_continuously env) = [] \<and>
         (interface_bound env \<and> numEndpoints_val env \<noteq> 255 \<longrightarrow>
            main env =
              Some \<lparr>trace = events (acquire env) @
                      [GetNumEndpoints,
                       printf 150 [ArgInt (ucast (numEndpoints_val env)),
                                   ArgInt (GetNumEndpoints_kr env)]] @
                      pipe_queries env (numEndpoints_val env) @
                      write_pipe_1 env @ write_pipe_2 env @
                      [printf 180 [], printf 181 [], WritePipe 1 dmx sizeof_dmx,
                       printf 185 [ArgInt (WritePipe_loop_kr env 0)], printf 190 []] @
                      cleanup,
                    ending = Returned 0\<rparr>)"
proof -
  have f: "frames_loop env n 0 =
      [WritePipe 1 dmx sizeof_dmx, printf 185 [ArgInt (WritePipe_loop_kr env 0)]]"
    if "0 < n" for n
    using that assms by (rule frames_loop_first_fails)
  have w: "write_continuously env =
           [printf 180 [], printf 181 [], WritePipe 1 dmx sizeof_dmx,
            printf 185 [ArgInt (WritePipe_loop_kr env 0)], printf 190 []]"
    by (simp add: write_continuously_def f)
  show ?thesis
    unfolding w by (simp add: f main_eq w)
qed

text \<open>C2 at the scenario in which every write of the loop fails.\<close>

theorem C2_witness:
  "frames_loop write_fails_env 200 0 =
     [WritePipe 1 dmx sizeof_dmx, printf 185 [ArgInt 0xE00002ED]] \<and>
   write_continuously write_fails_env =
     [printf 180 [], printf 181 [], WritePipe 1 dmx sizeof_dmx,
      printf 185 [ArgInt 0xE00002ED], printf 190 []] \<and>
   main write_fails_env =
     Some \<lparr>trace = events (acquire write_fails_env) @
             [GetNumEndpoints, printf 150 [ArgInt 1, ArgInt 0]] @
             pipe_queries write_fails_env 1 @
             write_pipe_1 write_fails_env @ write_pipe_2 write_fails_env @
             [printf 180 [], printf 181 [], WritePipe 1 dmx sizeof_dmx,
              printf 185 [ArgInt 0xE00002ED], printf 190 []] @
             cleanup,
           ending = Returned 0\<rparr>"
proof -
  have k: "WritePipe_loop_kr write_fails_env 0 = 0xE00002ED"
    "GetNumEndpoints_kr write_fails_env = 0"
    by (simp_all add: write_fails_env_def scenario_env_def)
  then have "WritePipe_loop_kr write_fails_env 0 \<noteq> kIOReturnSuccess"
    by (simp add: kIOReturnSuccess_def)
  from C2_first_send_fails [OF this, of 200] show ?thesis
    by (simp add: k write_fails_reached scenario_numEndpoints)
qed

text \<open>
  Claim C3: once the device interface is obtained, the device is opened once; when that
  open fails the seize is tried once, right after it, and otherwise not at all, in every
  run, ended or not. The run returns from the open step (line 87, status 1) exactly when
  both fail, and then the trace stops at the release of line 86: no configuration, no
  interface iterator, no call on the interface interface. When one of the two succeeds
  the run goes on to the configuration and the interface iterator.
\<close>

theorem C3_single_seize_fallback:
  assumes "device_bound env"
  shows "(USBDeviceOpen_kr env \<noteq> kIOReturnSuccess \<and>
          USBDeviceOpenSeize_kr env \<noteq> kIOReturnSuccess \<longrightarrow>
            main env =
              Some \<lparr>trace = events (find_device env) @ events (get_device_interface env) @
                      [USBDeviceOpen, printf 81 [ArgInt (USBDeviceOpen_kr env)],
                       USBDeviceOpenSeize, printf 85 [ArgInt (USBDeviceOpenSeize_kr env)],
                       Release deviceInterface],
                    ending = Returned 1\<rparr>) \<and>
         (\<not> (interface_bound env \<and> numEndpoints_val env = 255) \<longrightarrow>
            (\<exists>r. main env = Some r \<and>
               uses deviceInterface (trace r) =
                 USBDeviceOpen #
                 (if USBDeviceOpen_kr env = kIOReturnSuccess then [] else [USBDeviceOpenSeize]) @
                 (if USBDeviceOpen_kr env = kIOReturnSuccess \<or>
                     USBDeviceOpenSeize_kr env = kIOReturnSuccess
                  then SetConfiguration 1 # CreateInterfaceIterator request #
                    (if plugIn_missing env then []
                     else [USBDeviceClose, Release deviceInterface])
                  else [Release deviceInterface]) \<and>
               count_list (trace r) USBDeviceOpen = 1 \<and>
               count_list (trace r) USBDeviceOpenSeize =
                 (if USBDeviceOpen_kr env = kIOReturnSuccess then 0 else 1) \<and>
               (if USBDeviceOpen_kr env = kIOReturnSuccess \<or>
                   USBDeviceOpenSeize_kr env = kIOReturnSuccess
                then SetConfiguration 1 \<in> set (trace r)
                else ending r = Returned 1 \<and> uses interfaceInterface (trace r) = []))) \<and>
         count_list (events (acquire env)) USBDeviceOpen = 1 \<and>
         count_list (events (acquire env)) USBDeviceOpenSeize =
           (if USBDeviceOpen_kr env = kIOReturnSuccess then 0 else 1)"
proof (intro conjI impI)
  assume both: "USBDeviceOpen_kr env \<noteq> kIOReturnSuccess \<and>
      USBDeviceOpenSeize_kr env \<noteq> kIOReturnSuccess"
  then have "\<not> device_opened env" by (simp add: device_opened_def)
  then have n: "\<not> device_opened env" "\<not> interface_found env" "\<not> interface_bound env"
    "\<not> plugIn_missing env"
    by (auto dest: reached_mono)
  from assms have "device_found env" by (auto dest: reached_mono)
  with assms n both show "main env =
              Some \<lparr>trace = events (find_device env) @ events (get_device_interface env) @
                      [USBDeviceOpen, printf 81 [ArgInt (USBDeviceOpen_kr env)],
                       USBDeviceOpenSeize, printf 85 [ArgInt (USBDeviceOpenSeize_kr env)],
                       Release deviceInterface],
                    ending = Returned 1\<rparr>"
    by (simp add: main_cases acquire_events open_device_refused)
next
  assume ret: "\<not> (interface_bound env \<and> numEndpoints_val env = 255)"
  define T where
    "T = events (acquire env) @ (if interface_bound env then after_acquire env else [])"
  define r where
    "r = \<lparr>trace = T,
          ending = (if interface_bound env then Returned 0
                    else if plugIn_missing env then Killed else Returned 1)\<rparr>"
  have m: "main env = Some r"
    using ret by (auto simp: main_cases r_def T_def)
  have op: "device_opened env \<longleftrightarrow>
      USBDeviceOpen_kr env = kIOReturnSuccess \<or> USBDeviceOpenSeize_kr env = kIOReturnSuccess"
    using assms by (simp add: device_opened_def)
  have u: "uses deviceInterface T =
                 USBDeviceOpen #
                 (if USBDeviceOpen_kr env = kIOReturnSuccess then [] else [USBDeviceOpenSeize]) @
                 (if USBDeviceOpen_kr env = kIOReturnSuccess \<or>
                     USBDeviceOpenSeize_kr env = kIOReturnSuccess
                  then SetConfiguration 1 # CreateInterfaceIterator request #
                    (if plugIn_missing env then []
                     else [USBDeviceClose, Release deviceInterface])
                  else [Release deviceInterface])"
  proof (cases "interface_bound env")
    case True
    then have "device_opened env" "\<not> plugIn_missing env"
      by (auto dest: reached_mono plugIn_missing_not_bound)
    with True assms op show ?thesis
      by (simp add: T_def uses_append acquire_uses_device uses_dev_after_acquire)
  next
    case False
    with assms op show ?thesis
      by (auto simp: T_def acquire_uses_device dest: reached_mono)
  qed
  have "count_list T USBDeviceOpen =
      count_list (filter (\<lambda>e. receiver e = Some deviceInterface) T) USBDeviceOpen"
    by (rule count_list_filter [symmetric]) simp
  then have c1: "count_list T USBDeviceOpen = 1"
    unfolding uses_def [symmetric] u by simp
  have "count_list T USBDeviceOpenSeize =
      count_list (filter (\<lambda>e. receiver e = Some deviceInterface) T) USBDeviceOpenSeize"
    by (rule count_list_filter [symmetric]) simp
  then have c2: "count_list T USBDeviceOpenSeize =
      (if USBDeviceOpen_kr env = kIOReturnSuccess then 0 else 1)"
    unfolding uses_def [symmetric] u by simp
  have s: "if USBDeviceOpen_kr env = kIOReturnSuccess \<or>
              USBDeviceOpenSeize_kr env = kIOReturnSuccess
           then SetConfiguration 1 \<in> set T
           else ending r = Returned 1 \<and> uses interfaceInterface T = []"
  proof (cases "device_opened env")
    case True
    have "SetConfiguration 1 \<in> set (uses deviceInterface T)"
      unfolding u using True op by simp
    then have "SetConfiguration 1 \<in> set T" by (simp add: uses_def)
    with True op show ?thesis by simp
  next
    case False
    then have "\<not> interface_bound env" "\<not> plugIn_missing env" by (auto dest: reached_mono)
    with False op show ?thesis
      by (simp add: r_def T_def acquire_uses_interface)
  qed
  show "\<exists>r. main env = Some r \<and>
               uses deviceInterface (trace r) =
                 USBDeviceOpen #
                 (if USBDeviceOpen_kr env = kIOReturnSuccess then [] else [USBDeviceOpenSeize]) @
                 (if USBDeviceOpen_kr env = kIOReturnSuccess \<or>
                     USBDeviceOpenSeize_kr env = kIOReturnSuccess
                  then SetConfiguration 1 # CreateInterfaceIterator request #
                    (if plugIn_missing env then []
                     else [USBDeviceClose, Release deviceInterface])
                  else [Release deviceInterface]) \<and>
               count_list (trace r) USBDeviceOpen = 1 \<and>
               count_list (trace r) USBDeviceOpenSeize =
                 (if USBDeviceOpen_kr env = kIOReturnSuccess then 0 else 1) \<and>
               (if USBDeviceOpen_kr env = kIOReturnSuccess \<or>
                   USBDeviceOpenSeize_kr env = kIOReturnSuccess
                then SetConfiguration 1 \<in> set (trace r)
                else ending r = Returned 1 \<and> uses interfaceInterface (trace r) = [])"
  proof (intro exI conjI)
    have tr: "trace r = T" by (simp add: r_def)
    show "main env = Some r" by (rule m)
    show "uses deviceInterface (trace r) =
                 USBDeviceOpen #
                 (if USBDeviceOpen_kr env = kIOReturnSuccess then [] else [USBDeviceOpenSeize]) @
                 (if USBDeviceOpen_kr env = kIOReturnSuccess \<or>
                     USBDeviceOpenSeize_kr env = kIOReturnSuccess
                  then SetConfiguration 1 # CreateInterfaceIterator request #
                    (if plugIn_missing env then []
                     else [USBDeviceClose, Release deviceInterface])
                  else [Release deviceInterface])"
      using u by (simp add: tr)
    show "count_list (trace r) USBDeviceOpen = 1" using c1 by (simp add: tr)
    show "count_list (trace r) USBDeviceOpenSeize =
                 (if USBDeviceOpen_kr env = kIOReturnSuccess then 0 else 1)"
      using c2 by (simp add: tr)
    show "if USBDeviceOpen_kr env = kIOReturnSuccess \<or>
                   USBDeviceOpenSeize_kr env = kIOReturnSuccess
                then SetConfiguration 1 \<in> set (trace r)
                else ending r = Returned 1 \<and> uses interfaceInterface (trace r) = []"
      using s by (simp add: tr)
  qed
next
  have a: "uses deviceInterface (events (acquire env)) =
      USBDeviceOpen #
        (if USBDeviceOpen_kr env = kIOReturnSuccess then [] else [USBDeviceOpenSeize]) @
        (if \<not> device_opened env then [Release deviceInterface]
         else SetConfiguration 1 # CreateInterfaceIterator request #
           (if interface_bound env \<or> plugIn_missing env then []
            else [USBDeviceClose, Release deviceInterface]))"
    using assms by (simp add: acquire_uses_device)
  have "count_list (events (acquire env)) USBDeviceOpen =
      count_list (filter (\<lambda>e. receiver e = Some deviceInterface) (events (acquire env)))
        USBDeviceOpen"
    by (rule count_list_filter [symmetric]) simp
  then show "count_list (events (acquire env)) USBDeviceOpen = 1"
    unfolding uses_def [symmetric] a by simp
  have "count_list (events (acquire env)) USBDeviceOpenSeize =
      count_list (filter (\<lambda>e. receiver e = Some deviceInterface) (events (acquire env)))
        USBDeviceOpenSeize"
    by (rule count_list_filter [symmetric]) simp
  then show "count_list (events (acquire env)) USBDeviceOpenSeize =
           (if USBDeviceOpen_kr env = kIOReturnSuccess then 0 else 1)"
    unfolding uses_def [symmetric] a by simp
qed

text \<open>
  C3 at a device whose two opens are refused, and at one whose open is refused and whose
  seize is granted.
\<close>

theorem C3_witness:
  "main open_refused_env =
     Some \<lparr>trace = events (find_device open_refused_env) @
             events (get_device_interface open_refused_env) @
             [USBDeviceOpen, printf 81 [ArgInt 0xE00002C5], USBDeviceOpenSeize,
              printf 85 [ArgInt 0xE00002C5], Release deviceInterface],
           ending = Returned 1\<rparr> \<and>
   (\<exists>r. main open_refused_env = Some r \<and>
      uses deviceInterface (trace r) =
        [USBDeviceOpen, USBDeviceOpenSeize, Release deviceInterface] \<and>
      count_list (trace r) USBDeviceOpenSeize = 1 \<and> ending r = Returned 1 \<and>
      uses interfaceInterface (trace r) = []) \<and>
   (\<exists>r. main seized_env = Some r \<and>
      uses deviceInterface (trace r) =
        [USBDeviceOpen, USBDeviceOpenSeize, SetConfiguration 1,
         CreateInterfaceIterator request, USBDeviceClose, Release deviceInterface] \<and>
      count_list (trace r) USBDeviceOpen = 1 \<and>
      count_list (trace r) USBDeviceOpenSeize = 1 \<and>
      SetConfiguration 1 \<in> set (trace r))"
proof -
  note a = C3_single_seize_fallback [OF open_refused_reached(2)]
  note b = C3_single_seize_fallback [OF seized_reached(2)]
  from a [THEN conjunct1] have "main open_refused_env =
     Some \<lparr>trace = events (find_device open_refused_env) @
             events (get_device_interface open_refused_env) @
             [USBDeviceOpen, printf 81 [ArgInt 0xE00002C5], USBDeviceOpenSeize,
              printf 85 [ArgInt 0xE00002C5], Release deviceInterface],
           ending = Returned 1\<rparr>"
    by (simp add: open_refused_facts(1,2) kIOReturnSuccess_def)
  moreover from a [THEN conjunct2] have "\<exists>r. main open_refused_env = Some r \<and>
      uses deviceInterface (trace r) =
        [USBDeviceOpen, USBDeviceOpenSeize, Release deviceInterface] \<and>
      count_list (trace r) USBDeviceOpenSeize = 1 \<and> ending r = Returned 1 \<and>
      uses interfaceInterface (trace r) = []"
    by (auto simp: open_refused_facts(1,2) kIOReturnSuccess_def open_refused_reached)
  moreover from b [THEN conjunct2] have "\<exists>r. main seized_env = Some r \<and>
      uses deviceInterface (trace r) =
        [USBDeviceOpen, USBDeviceOpenSeize, SetConfiguration 1,
         CreateInterfaceIterator request, USBDeviceClose, Release deviceInterface] \<and>
      count_list (trace r) USBDeviceOpen = 1 \<and>
      count_list (trace r) USBDeviceOpenSeize = 1 \<and>
      SetConfiguration 1 \<in> set (trace r)"
    using seized_facts by (auto simp: seized_reached)
  ultimately show ?thesis by blast
qed

text \<open>
  Claim C4: \<open>main\<close> returns 1 exactly when one of the returning tests of the acquisition
  fires (lines 35, 46, 53, 63, 72, 84, 104, 113, 124, 135), and 0 when none does and the
  run reaches the streaming; a \<^verbatim>\<open>return\<close> gives no other exit status. The only other
  end of a run is within the binding of the interface, where a null plug-in pointer
  answered with success kills the process at line 131. The statuses of the configuration,
  of the opening of the interface, of the endpoint and pipe queries and of every write, the
  first of the streaming loop included, have no influence on how the run ends.
\<close>

theorem C4_exit_status:
  "(interface_bound env \<longleftrightarrow>
      matchingDict_nonnull env \<and> GetMatchingServices_kr env = KERN_SUCCESS \<and>
      usbDevice_port env \<noteq> 0 \<and> devPlugIn_kr env = KERN_SUCCESS \<and> devPlugIn_nonnull env \<and>
      devQuery_result env = 0 \<and> deviceInterface_nonnull env \<and>
      (USBDeviceOpen_kr env = kIOReturnSuccess \<or>
       USBDeviceOpenSeize_kr env = kIOReturnSuccess) \<and>
      CreateInterfaceIterator_kr env = kIOReturnSuccess \<and> usbInterface_port env \<noteq> 0 \<and>
      ifPlugIn_kr env = kIOReturnSuccess \<and> ifPlugIn_nonnull env \<and> ifQuery_result env = 0 \<and>
      interfaceInterface_nonnull env) \<and>
   (\<not> interface_bound env \<and> \<not> plugIn_missing env \<longrightarrow>
      (\<exists>t. main env = Some \<lparr>trace = t, ending = Returned 1\<rparr>)) \<and>
   (plugIn_missing env \<longrightarrow> (\<exists>t. main env = Some \<lparr>trace = t, ending = Killed\<rparr>)) \<and>
   (interface_bound env \<and> numEndpoints_val env \<noteq> 255 \<longrightarrow>
      (\<exists>t. main env = Some \<lparr>trace = t, ending = Returned 0\<rparr>)) \<and>
   (interface_bound env \<and> numEndpoints_val env = 255 \<longrightarrow> main env = None) \<and>
   map_option ending
     (main (env\<lparr>SetConfiguration_kr := c, USBInterfaceOpen_kr := oi, GetNumEndpoints_kr := g,
                 GetPipeProperties_out := p, WritePipe1_kr := w1, WritePipe2_kr := w2,
                 WritePipe_loop_kr := w\<rparr>)) =
   map_option ending (main env)"
proof -
  let ?env' = "env\<lparr>SetConfiguration_kr := c, USBInterfaceOpen_kr := oi,
      GetNumEndpoints_kr := g, GetPipeProperties_out := p, WritePipe1_kr := w1,
      WritePipe2_kr := w2, WritePipe_loop_kr := w\<rparr>"
  have i: "interface_bound ?env' = interface_bound env"
    "plugIn_missing ?env' = plugIn_missing env"
    by (simp_all add: reached)
  have e: "map_option ending (main ?env') = map_option ending (main env)"
    unfolding main_cases i by simp
  have b: "interface_bound env \<longleftrightarrow>
      matchingDict_nonnull env \<and> GetMatchingServices_kr env = KERN_SUCCESS \<and>
      usbDevice_port env \<noteq> 0 \<and> devPlugIn_kr env = KERN_SUCCESS \<and> devPlugIn_nonnull env \<and>
      devQuery_result env = 0 \<and> deviceInterface_nonnull env \<and>
      (USBDeviceOpen_kr env = kIOReturnSuccess \<or>
       USBDeviceOpenSeize_kr env = kIOReturnSuccess) \<and>
      CreateInterfaceIterator_kr env = kIOReturnSuccess \<and> usbInterface_port env \<noteq> 0 \<and>
      ifPlugIn_kr env = kIOReturnSuccess \<and> ifPlugIn_nonnull env \<and> ifQuery_result env = 0 \<and>
      interfaceInterface_nonnull env"
    by (auto simp: reached)
  have k: "\<exists>t. main env = Some \<lparr>trace = t, ending = Killed\<rparr>" if "plugIn_missing env"
    using that plugIn_missing_not_bound [OF that] by (simp add: main_cases)
  have r1: "\<exists>t. main env = Some \<lparr>trace = t, ending = Returned 1\<rparr>"
    if "\<not> interface_bound env" "\<not> plugIn_missing env"
    using that by (simp add: main_cases)
  have r0: "\<exists>t. main env = Some \<lparr>trace = t, ending = Returned 0\<rparr>"
    if "interface_bound env" "numEndpoints_val env \<noteq> 255"
    using that by (simp add: main_cases)
  have n: "main env = None" if "interface_bound env" "numEndpoints_val env = 255"
    using that by (simp add: main_cases)
  from b k r1 r0 n e show ?thesis by blast
qed

text \<open>
  C4 at the end-to-end scenario, at a device whose opens are refused, at the scenario
  whose streaming writes all fail and at a null plug-in for the interface.
\<close>

theorem C4_witness:
  "(\<exists>t. main scenario_env = Some \<lparr>trace = t, ending = Returned 0\<rparr>) \<and>
   (\<exists>t. main open_refused_env = Some \<lparr>trace = t, ending = Returned 1\<rparr>) \<and>
   (\<exists>t. main write_fails_env = Some \<lparr>trace = t, ending = Returned 0\<rparr>) \<and>
   (\<exists>t. main plugIn_null_env = Some \<lparr>trace = t, ending = Killed\<rparr>)"
proof -
  note a = C4_exit_status [of scenario_env]
  note b = C4_exit_status [of open_refused_env]
  note c = C4_exit_status [of write_fails_env]
  note d = C4_exit_status [of plugIn_null_env]
  from a have "\<exists>t. main scenario_env = Some \<lparr>trace = t, ending = Returned 0\<rparr>"
    by (simp add: scenario_reached scenario_numEndpoints)
  moreover from b have "\<exists>t. main open_refused_env = Some \<lparr>trace = t, ending = Returned 1\<rparr>"
    by (simp add: open_refused_reached)
  moreover from c have "\<exists>t. main write_fails_env = Some \<lparr>trace = t, ending = Returned 0\<rparr>"
    by (simp add: write_fails_reached scenario_numEndpoints)
  moreover from d have "\<exists>t. main plugIn_null_env = Some \<lparr>trace = t, ending = Killed\<rparr>"
    by (simp add: plugIn_null_reached)
  ultimately show ?thesis by blast
qed

text \<open>
  Claim C5 says that the frame is zero except for byte 0. In the end-to-end scenario the
  streaming loop sends \<open>dmx\<close> 200 times, and \<open>dmx\<close> has four more bytes set (lines 165
  to 168): it is not the frame of the claim.
\<close>

theorem C5_counterexample:
  "frames_loop scenario_env 200 0 =
     concat (replicate 200 [WritePipe 1 dmx sizeof_dmx, usleep 25000]) \<and>
   dmx ! 1 = 225 \<and> dmx ! 4 = 255 \<and> dmx ! 512 = 255 \<and> dmx ! 513 = 255 \<and>
   dmx \<noteq> (replicate 514 0)[0 := 255]"
proof -
  have "frames_loop scenario_env 200 0 = concat (replicate 200 frame_sent)"
    using scenario_first_write by (rule frames_loop_first_ok)
  moreover have n: "dmx ! 1 = 225" "dmx ! 4 = 255" "dmx ! 512 = 255" "dmx ! 513 = 255"
    by (simp_all add: dmx_nth)
  moreover have "dmx \<noteq> (replicate 514 0)[0 := 255]"
  proof
    assume "dmx = (replicate 514 0)[0 := 255]"
    then have "dmx ! 1 = ((replicate 514 0)[0 := 255] :: UInt8 list) ! 1" by (rule arg_cong)
    also have "\<dots> = 0" by simp
    finally show False using n(1) by simp
  qed
  ultimately show ?thesis by (simp add: frame_sent_def)
qed

text \<open>
  Claim C5, amended: with the criteria 0x15E4 and 0x0053, in a run whose acquisition
  succeeds, whose interface has one pipe and whose first streaming write succeeds, the frame
  is 514 bytes, zero except bytes 0, 4, 512 and 513, which are 255, and byte 1, which is
  225; the streaming loop writes it 200 times to pipe 1, each write followed by a sleep of
  25000 microseconds, after the two writes of lines 171 and 176, and the exit status is 0.
\<close>

theorem C5_end_to_end:
  assumes "interface_bound env" "numEndpoints_val env = 1"
    "WritePipe_loop_kr env 0 = kIOReturnSuccess"
  shows "VID = 0x15E4 \<and> PID = 0x0053 \<and> length dmx = 514 \<and> sizeof_dmx = 514 \<and>
         (\<forall>j<514. dmx ! j = (if j \<in> {0, 4, 512, 513} then 255 else if j = 1 then 225 else 0)) \<and>
         (\<exists>r pre. main env = Some r \<and> ending r = Returned 0 \<and>
            trace r = pre @ [printf 180 [], printf 181 []] @
              concat (replicate 200 [WritePipe 1 dmx sizeof_dmx, usleep 25000]) @
              [printf 190 []] @ cleanup \<and>
            CFDictionarySetValue kUSBVendorID 0x15E4 \<in> set pre \<and>
            CFDictionarySetValue kUSBProductID 0x0053 \<in> set pre \<and>
            filter is_WritePipe pre = [WritePipe 1 dmx sizeof_dmx, WritePipe 2 dmx sizeof_dmx])"
proof -
  define pre where "pre = events (acquire env) @
      [GetNumEndpoints,
       printf 150 [ArgInt (ucast (numEndpoints_val env)), ArgInt (GetNumEndpoints_kr env)]] @
      pipe_queries env (numEndpoints_val env) @ write_pipe_1 env @ write_pipe_2 env"
  define r where "r = \<lparr>trace = pre @ write_continuously env @ cleanup, ending = Returned 0\<rparr>"
  have m: "main env = Some r"
    using assms(1,2) by (simp add: main_eq r_def pre_def)
  have f: "frames_loop env 200 0 = concat (replicate 200 frame_sent)"
    using assms(3) by (rule frames_loop_first_ok)
  have t: "trace r = pre @ [printf 180 [], printf 181 []] @
              concat (replicate 200 [WritePipe 1 dmx sizeof_dmx, usleep 25000]) @
              [printf 190 []] @ cleanup"
    by (simp add: r_def write_continuously_def f frame_sent_def)
  from assms(1) have "device_found env" by (auto dest: reached_mono)
  then have c: "CFDictionarySetValue kUSBVendorID 0x15E4 \<in> set pre"
    "CFDictionarySetValue kUSBProductID 0x0053 \<in> set pre"
    using criteria_find_device [of env] by (simp_all add: pre_def acquire_events)
  have w: "filter is_WritePipe pre = [WritePipe 1 dmx sizeof_dmx, WritePipe 2 dmx sizeof_dmx]"
    by (simp add: pre_def acquire_no_WritePipe WritePipe_pipe_queries write_pipe_1_def
        write_pipe_2_def Let_def)
  have d: "\<forall>j<514. dmx ! j = (if j \<in> {0, 4, 512, 513} then 255 else if j = 1 then 225 else 0)"
    by (simp add: dmx_nth)
  have s: "ending r = Returned 0" by (simp add: r_def)
  from m s t c w have "\<exists>r pre. main env = Some r \<and> ending r = Returned 0 \<and>
            trace r = pre @ [printf 180 [], printf 181 []] @
              concat (replicate 200 [WritePipe 1 dmx sizeof_dmx, usleep 25000]) @
              [printf 190 []] @ cleanup \<and>
            CFDictionarySetValue kUSBVendorID 0x15E4 \<in> set pre \<and>
            CFDictionarySetValue kUSBProductID 0x0053 \<in> set pre \<and>
            filter is_WritePipe pre = [WritePipe 1 dmx sizeof_dmx, WritePipe 2 dmx sizeof_dmx]"
    by blast
  with d show ?thesis by (simp add: VID_def PID_def dmx_length sizeof_dmx_def)
qed

text \<open>C5, amended, at the end-to-end scenario.\<close>

theorem C5_witness:
  "length dmx = 514 \<and> dmx ! 0 = 255 \<and> dmx ! 1 = 225 \<and> dmx ! 2 = 0 \<and> dmx ! 4 = 255 \<and>
   dmx ! 511 = 0 \<and> dmx ! 512 = 255 \<and> dmx ! 513 = 255 \<and>
   (\<exists>r pre. main scenario_env = Some r \<and> ending r = Returned 0 \<and>
      trace r = pre @ [printf 180 [], printf 181 []] @
        concat (replicate 200 [WritePipe 1 dmx sizeof_dmx, usleep 25000]) @
        [printf 190 []] @ cleanup \<and>
      CFDictionarySetValue kUSBVendorID 0x15E4 \<in> set pre \<and>
      CFDictionarySetValue kUSBProductID 0x0053 \<in> set pre \<and>
      filter is_WritePipe pre = [WritePipe 1 dmx sizeof_dmx, WritePipe 2 dmx sizeof_dmx])"
proof -
  note t = C5_end_to_end [OF scenario_reached(5) scenario_numEndpoints(1) scenario_first_write]
  from t have d: "\<forall>j<514. dmx ! j =
      (if j \<in> {0, 4, 512, 513} then 255 else if j = 1 then 225 else 0)" by blast
  have "dmx ! 0 = 255" "dmx ! 1 = 225" "dmx ! 2 = 0" "dmx ! 4 = 255" "dmx ! 511 = 0"
    "dmx ! 512 = 255" "dmx ! 513 = 255"
    using d [THEN spec, of 0] d [THEN spec, of 1] d [THEN spec, of 2] d [THEN spec, of 4]
      d [THEN spec, of 511] d [THEN spec, of 512] d [THEN spec, of 513]
    by simp_all
  with t show ?thesis by blast
qed

text \<open>
  Claim C6 holds for every endpoint count but 255: for a count \<open>K\<close> below 255 the block
  of lines 147 to 159 queries the pipes 1 to \<open>K\<close> once each, in order, whatever the
  statuses of the queries, and goes on. At 255 the test \<^verbatim>\<open>i <= numEndpoints\<close> holds for
  every value of the \<^verbatim>\<open>UInt8\<close> counter, which wraps from 255 to 0: the loop never ends,
  from whatever index it is entered, and so neither does \<open>main\<close> once the acquisition
  has succeeded.
\<close>

theorem C6_endpoint_count_255_never_returns:
  "(numEndpoints_val env \<noteq> 255 \<longrightarrow>
      get_endpoint_info env =
        Some ([GetNumEndpoints,
               printf 150 [ArgInt (ucast (numEndpoints_val env)),
                           ArgInt (GetNumEndpoints_kr env)]] @
              concat (map (\<lambda>j. pipe_query env (of_nat j))
                        [1 ..< Suc (unat (numEndpoints_val env))]))) \<and>
   (numEndpoints_val env = 255 \<longrightarrow>
      get_endpoint_info env = None \<and> (interface_bound env \<longrightarrow> main env = None)) \<and>
   pipe_loop env i 255 tr = None"
proof (intro conjI impI)
  assume "numEndpoints_val env \<noteq> 255"
  then show "get_endpoint_info env =
        Some ([GetNumEndpoints,
               printf 150 [ArgInt (ucast (numEndpoints_val env)),
                           ArgInt (GetNumEndpoints_kr env)]] @
              concat (map (\<lambda>j. pipe_query env (of_nat j))
                        [1 ..< Suc (unat (numEndpoints_val env))]))"
    unfolding get_endpoint_info_def by (simp add: pipe_loop_returns pipe_queries_def)
next
  assume k: "numEndpoints_val env = 255"
  show "get_endpoint_info env = None"
    unfolding get_endpoint_info_def k by (rule pipe_loop_diverges)
  assume "interface_bound env"
  with k show "main env = None" by (simp add: main_cases)
next
  show "pipe_loop env i 255 tr = None" by (rule pipe_loop_diverges)
qed

text \<open>C6 at the end-to-end scenario (one pipe) and at an endpoint count of 255.\<close>

theorem C6_witness:
  "get_endpoint_info scenario_env =
     Some [GetNumEndpoints, printf 150 [ArgInt 1, ArgInt 0], GetPipeProperties 1,
           printf 157 [ArgInt 1, ArgInt 0, ArgInt 1, ArgInt 2, ArgInt 64, ArgInt 0]] \<and>
   get_endpoint_info many_endpoints_env = None \<and> main many_endpoints_env = None"
proof -
  have k: "numEndpoints_val many_endpoints_env = 255"
    by (simp add: many_endpoints_env_def)
  have q: "pipe_query scenario_env 1 =
      [GetPipeProperties 1,
       printf 157 [ArgInt 1, ArgInt 0, ArgInt 1, ArgInt 2, ArgInt 64, ArgInt 0]]"
    by (simp add: pipe_query_def scenario_env_def)
  have g: "GetNumEndpoints_kr scenario_env = 0" by (simp add: scenario_env_def)
  from C6_endpoint_count_255_never_returns [of scenario_env]
  have "get_endpoint_info scenario_env =
     Some [GetNumEndpoints, printf 150 [ArgInt 1, ArgInt 0], GetPipeProperties 1,
           printf 157 [ArgInt 1, ArgInt 0, ArgInt 1, ArgInt 2, ArgInt 64, ArgInt 0]]"
    by (simp add: scenario_numEndpoints q g)
  moreover from C6_endpoint_count_255_never_returns [of many_endpoints_env]
  have "get_endpoint_info many_endpoints_env = None \<and> main many_endpoints_env = None"
    by (simp add: k many_endpoints_reached)
  ultimately show ?thesis by blast
qed

text \<open>
  Claim C7: the statuses of \<^verbatim>\<open>SetConfiguration\<close> (line 93) and of
  \<^verbatim>\<open>USBInterfaceOpen\<close> (line 144) are not tested. Whatever they are, the run makes the
  same calls in the same order and ends with the same status; the only difference is the
  value shown by the prints of lines 94 and 145. In particular, with both failing, a run
  whose other steps succeed still looks the interface up, enumerates the pipes, streams and
  exits with 0.
\<close>

theorem C7_configure_and_open_interface_not_fatal:
  "main (env\<lparr>SetConfiguration_kr := c, USBInterfaceOpen_kr := oi\<rparr>) =
     map_option
       (\<lambda>r. r\<lparr>trace := map (reprint 145 [ArgInt oi]) (map (reprint 94 [ArgInt c]) (trace r))\<rparr>)
       (main env) \<and>
   (interface_bound env \<and> numEndpoints_val env \<noteq> 255 \<longrightarrow>
      main (env\<lparr>SetConfiguration_kr := c, USBInterfaceOpen_kr := oi\<rparr>) =
        Some \<lparr>trace =
                events (acquire (env\<lparr>SetConfiguration_kr := c, USBInterfaceOpen_kr := oi\<rparr>)) @
                [GetNumEndpoints,
                 printf 150 [ArgInt (ucast (numEndpoints_val env)),
                             ArgInt (GetNumEndpoints_kr env)]] @
                pipe_queries env (numEndpoints_val env) @
                write_pipe_1 env @ write_pipe_2 env @ write_continuously env @ cleanup,
              ending = Returned 0\<rparr> \<and>
      uses deviceInterface
        (events (acquire (env\<lparr>SetConfiguration_kr := c, USBInterfaceOpen_kr := oi\<rparr>))) =
        USBDeviceOpen #
        (if USBDeviceOpen_kr env = kIOReturnSuccess then [] else [USBDeviceOpenSeize]) @
        [SetConfiguration 1, CreateInterfaceIterator request])"
proof -
  let ?env' = "env\<lparr>SetConfiguration_kr := c, USBInterfaceOpen_kr := oi\<rparr>"
  have r: "device_bound ?env' = device_bound env" "device_opened ?env' = device_opened env"
    "interface_bound ?env' = interface_bound env"
    by (simp_all add: reached)
  have n: "numEndpoints_val ?env' = numEndpoints_val env"
    "USBDeviceOpen_kr ?env' = USBDeviceOpen_kr env" by simp_all
  have a: "after_acquire ?env' = after_acquire env"
    by (simp add: after_acquire_def tail_blocks pipe_queries_cong [of ?env' env]
        frames_loop_cong [of ?env' env])
  have "main ?env' =
     map_option (\<lambda>r. r\<lparr>trace := map (reprint 145 [ArgInt oi]) (trace r)\<rparr>)
       (map_option (\<lambda>r. r\<lparr>trace := map (reprint 94 [ArgInt c]) (trace r)\<rparr>) (main env))"
    using main_USBInterfaceOpen_kr [where env = "env\<lparr>SetConfiguration_kr := c\<rparr>" and oi = oi]
    by (simp add: main_SetConfiguration_kr)
  then have 1: "main ?env' =
     map_option
       (\<lambda>r. r\<lparr>trace := map (reprint 145 [ArgInt oi]) (map (reprint 94 [ArgInt c]) (trace r))\<rparr>)
       (main env)"
    by (cases "main env") simp_all
  have 2: "main ?env' =
        Some \<lparr>trace = events (acquire ?env') @
                [GetNumEndpoints,
                 printf 150 [ArgInt (ucast (numEndpoints_val env)),
                             ArgInt (GetNumEndpoints_kr env)]] @
                pipe_queries env (numEndpoints_val env) @
                write_pipe_1 env @ write_pipe_2 env @ write_continuously env @ cleanup,
              ending = Returned 0\<rparr>"
    if "interface_bound env" "numEndpoints_val env \<noteq> 255"
    unfolding main_cases [of ?env'] r n a
    using that by (simp add: after_acquire_def)
  have 3: "uses deviceInterface (events (acquire ?env')) =
        USBDeviceOpen #
        (if USBDeviceOpen_kr env = kIOReturnSuccess then [] else [USBDeviceOpenSeize]) @
        [SetConfiguration 1, CreateInterfaceIterator request]"
    if "interface_bound env"
  proof -
    from that have "device_opened env" "device_bound env" by (auto dest: reached_mono)
    with that show ?thesis
      unfolding acquire_uses_device [of ?env'] r n by simp
  qed
  from 1 2 3 show ?thesis by blast
qed

text \<open>C7 at the scenario with the configuration and the opening of the interface failing.\<close>

theorem C7_witness:
  "main degraded_env =
     map_option
       (\<lambda>r. r\<lparr>trace := map (reprint 145 [ArgInt 0xE00002C5])
                          (map (reprint 94 [ArgInt 0xE00002EB]) (trace r))\<rparr>)
       (main scenario_env) \<and>
   main degraded_env =
     Some \<lparr>trace = events (acquire degraded_env) @
             [GetNumEndpoints, printf 150 [ArgInt 1, ArgInt 0]] @
             pipe_queries scenario_env 1 @
             write_pipe_1 scenario_env @ write_pipe_2 scenario_env @
             write_continuously scenario_env @ cleanup,
           ending = Returned 0\<rparr> \<and>
   uses deviceInterface (events (acquire degraded_env)) =
     [USBDeviceOpen, SetConfiguration 1, CreateInterfaceIterator request]"
proof -
  note t = C7_configure_and_open_interface_not_fatal
    [where env = scenario_env and c = "0xE00002EB" and oi = "0xE00002C5",
      folded degraded_env_def]
  have k: "GetNumEndpoints_kr scenario_env = 0" "USBDeviceOpen_kr scenario_env = kIOReturnSuccess"
    by (simp_all add: scenario_env_def kIOReturnSuccess_def)
  from t [THEN conjunct2] have "main degraded_env =
     Some \<lparr>trace = events (acquire degraded_env) @
             [GetNumEndpoints, printf 150 [ArgInt 1, ArgInt 0]] @
             pipe_queries scenario_env 1 @
             write_pipe_1 scenario_env @ write_pipe_2 scenario_env @
             write_continuously scenario_env @ cleanup,
           ending = Returned 0\<rparr> \<and>
   uses deviceInterface (events (acquire degraded_env)) =
     [USBDeviceOpen, SetConfiguration 1, CreateInterfaceIterator request]"
    by (simp add: scenario_reached scenario_numEndpoints k)
  with t [THEN conjunct1] show ?thesis by blast
qed

text \<open>
  Claim C8: when the first write of the streaming loop succeeds, the loop writes the
  frame \<open>dmx\<close> of lines 162 to 168, with its length, to pipe 1 once per iteration, as many
  times as its bound (200 in \<open>main\<close>), each write followed by the sleep. The statuses of
  the writes after the first play no part: replacing them by any others leaves the loop's
  calls the same. In \<open>main\<close> the writes of a whole run are then the two of lines 171 and
  176 and 200 writes of the frame to pipe 1.
\<close>

theorem C8_frames_sent_unmodified:
  assumes "WritePipe_loop_kr env 0 = kIOReturnSuccess"
  shows "frames_loop env n 0 = concat (replicate n [WritePipe 1 dmx sizeof_dmx, usleep 25000]) \<and>
         filter is_WritePipe (frames_loop env n 0) = replicate n (WritePipe 1 dmx sizeof_dmx) \<and>
         (\<forall>f. f 0 = kIOReturnSuccess \<longrightarrow>
            frames_loop (env\<lparr>WritePipe_loop_kr := f\<rparr>) n 0 = frames_loop env n 0) \<and>
         filter is_WritePipe (write_continuously env) =
           replicate 200 (WritePipe 1 dmx sizeof_dmx) \<and>
         (interface_bound env \<and> numEndpoints_val env \<noteq> 255 \<longrightarrow>
            (\<exists>r. main env = Some r \<and> ending r = Returned 0 \<and>
               filter is_WritePipe (trace r) =
                 WritePipe 1 dmx sizeof_dmx # WritePipe 2 dmx sizeof_dmx #
                 replicate 200 (WritePipe 1 dmx sizeof_dmx)))"
proof -
  have f: "frames_loop env n 0 = concat (replicate n frame_sent)" for n
    using assms by (rule frames_loop_first_ok)
  have g: "frames_loop (env\<lparr>WritePipe_loop_kr := f\<rparr>) n 0 = concat (replicate n frame_sent)"
    if "f 0 = kIOReturnSuccess" for f
    by (rule frames_loop_first_ok) (simp add: that)
  have m: "\<exists>r. main env = Some r \<and> ending r = Returned 0 \<and>
               filter is_WritePipe (trace r) =
                 WritePipe 1 dmx sizeof_dmx # WritePipe 2 dmx sizeof_dmx #
                 replicate 200 (WritePipe 1 dmx sizeof_dmx)"
    if "interface_bound env" "numEndpoints_val env \<noteq> 255"
    using that assms by (simp add: main_cases acquire_no_WritePipe WritePipe_after_acquire)
  show ?thesis
    using m by (simp add: f g WritePipe_frames_sent write_continuously_def)
      (simp add: frame_sent_def)
qed

text \<open>C8 with the first write succeeding and all the later ones failing.\<close>

theorem C8_witness:
  "frames_loop later_writes_fail_env 200 0 =
     concat (replicate 200 [WritePipe 1 dmx sizeof_dmx, usleep 25000]) \<and>
   filter is_WritePipe (frames_loop later_writes_fail_env 200 0) =
     replicate 200 (WritePipe 1 dmx sizeof_dmx) \<and>
   frames_loop (later_writes_fail_env\<lparr>WritePipe_loop_kr := (\<lambda>i. 0)\<rparr>) 200 0 =
     frames_loop later_writes_fail_env 200 0 \<and>
   (\<exists>r. main later_writes_fail_env = Some r \<and> ending r = Returned 0 \<and>
      filter is_WritePipe (trace r) =
        WritePipe 1 dmx sizeof_dmx # WritePipe 2 dmx sizeof_dmx #
        replicate 200 (WritePipe 1 dmx sizeof_dmx))"
proof -
  note t = C8_frames_sent_unmodified [OF later_writes_fail_facts(2), of 200]
  have "frames_loop (later_writes_fail_env\<lparr>WritePipe_loop_kr := (\<lambda>i. 0)\<rparr>) 200 0 =
      frames_loop later_writes_fail_env 200 0"
    using t [THEN conjunct2, THEN conjunct2, THEN conjunct1, THEN spec, of "\<lambda>i. 0"]
    by (simp add: kIOReturnSuccess_def)
  moreover from t have "\<exists>r. main later_writes_fail_env = Some r \<and> ending r = Returned 0 \<and>
      filter is_WritePipe (trace r) =
        WritePipe 1 dmx sizeof_dmx # WritePipe 2 dmx sizeof_dmx #
        replicate 200 (WritePipe 1 dmx sizeof_dmx)"
    by (simp add: later_writes_fail_reached later_writes_fail_facts)
  ultimately show ?thesis using t by blast
qed

text \<open>
  Claim C9: a run that completes the acquisition makes, between the pipe enumeration and
  the streaming block, exactly two writes of the frame, one to pipe 1 (line 171) and one to
  pipe 2 (line 176); no write precedes them. Their statuses go to the prints of lines 172
  and 177 and nowhere else: whatever they are, every other call of the run, the streaming
  loop, the cleanup and the exit status are the same.
\<close>

theorem C9_two_standalone_writes:
  "main (env\<lparr>WritePipe1_kr := a, WritePipe2_kr := b\<rparr>) =
     map_option
       (\<lambda>r. r\<lparr>trace := map (reprint 177 [ArgInt b, OK_or_FAIL b])
                          (map (reprint 172 [ArgInt a, OK_or_FAIL a]) (trace r))\<rparr>)
       (main env) \<and>
   (interface_bound env \<and> numEndpoints_val env \<noteq> 255 \<longrightarrow>
      main env =
        Some \<lparr>trace =
                (events (acquire env) @
                 [GetNumEndpoints,
                  printf 150 [ArgInt (ucast (numEndpoints_val env)),
                              ArgInt (GetNumEndpoints_kr env)]] @
                 pipe_queries env (numEndpoints_val env)) @
                [printf 170 [], WritePipe 1 dmx sizeof_dmx,
                 printf 172 [ArgInt (WritePipe1_kr env), OK_or_FAIL (WritePipe1_kr env)],
                 printf 175 [], WritePipe 2 dmx sizeof_dmx,
                 printf 177 [ArgInt (WritePipe2_kr env), OK_or_FAIL (WritePipe2_kr env)]] @
                write_continuously env @ cleanup,
              ending = Returned 0\<rparr> \<and>
      filter is_WritePipe
        (events (acquire env) @
         [GetNumEndpoints,
          printf 150 [ArgInt (ucast (numEndpoints_val env)), ArgInt (GetNumEndpoints_kr env)]] @
         pipe_queries env (numEndpoints_val env)) = [])"
proof -
  have "main (env\<lparr>WritePipe1_kr := a, WritePipe2_kr := b\<rparr>) =
     map_option (\<lambda>r. r\<lparr>trace := map (reprint 177 [ArgInt b, OK_or_FAIL b]) (trace r)\<rparr>)
       (map_option (\<lambda>r. r\<lparr>trace := map (reprint 172 [ArgInt a, OK_or_FAIL a]) (trace r)\<rparr>)
          (main env))"
    using main_WritePipe2_kr [where env = "env\<lparr>WritePipe1_kr := a\<rparr>" and b = b]
    by (simp add: main_WritePipe1_kr)
  then have 1: "main (env\<lparr>WritePipe1_kr := a, WritePipe2_kr := b\<rparr>) =
     map_option
       (\<lambda>r. r\<lparr>trace := map (reprint 177 [ArgInt b, OK_or_FAIL b])
                          (map (reprint 172 [ArgInt a, OK_or_FAIL a]) (trace r))\<rparr>)
       (main env)"
    by (cases "main env") simp_all
  have 2: "main env =
        Some \<lparr>trace =
                (events (acquire env) @
                 [GetNumEndpoints,
                  printf 150 [ArgInt (ucast (numEndpoints_val env)),
                              ArgInt (GetNumEndpoints_kr env)]] @
                 pipe_queries env (numEndpoints_val env)) @
                [printf 170 [], WritePipe 1 dmx sizeof_dmx,
                 printf 172 [ArgInt (WritePipe1_kr env), OK_or_FAIL (WritePipe1_kr env)],
                 printf 175 [], WritePipe 2 dmx sizeof_dmx,
                 printf 177 [ArgInt (WritePipe2_kr env), OK_or_FAIL (WritePipe2_kr env)]] @
                write_continuously env @ cleanup,
              ending = Returned 0\<rparr>"
    if "interface_bound env" "numEndpoints_val env \<noteq> 255"
    using that by (simp add: main_eq write_pipe_1_def write_pipe_2_def Let_def)
  have 3: "filter is_WritePipe
        (events (acquire env) @
         [GetNumEndpoints,
          printf 150 [ArgInt (ucast (numEndpoints_val env)), ArgInt (GetNumEndpoints_kr env)]] @
         pipe_queries env (numEndpoints_val env)) = []"
    by (simp add: acquire_no_WritePipe WritePipe_pipe_queries)
  from 1 2 3 show ?thesis by blast
qed

text \<open>C9 at the end-to-end scenario and at the scenario with both of these writes failing.\<close>

theorem C9_witness:
  "main probes_fail_env =
     map_option
       (\<lambda>r. r\<lparr>trace := map (reprint 177 [ArgInt 0xE00002C0, ArgStr ''FAIL''])
                          (map (reprint 172 [ArgInt 0xE00002ED, ArgStr ''FAIL'']) (trace r))\<rparr>)
       (main scenario_env) \<and>
   main scenario_env =
     Some \<lparr>trace =
             (events (acquire scenario_env) @
              [GetNumEndpoints, printf 150 [ArgInt 1, ArgInt 0]] @
              pipe_queries scenario_env 1) @
             [printf 170 [], WritePipe 1 dmx sizeof_dmx, printf 172 [ArgInt 0, ArgStr ''OK''],
              printf 175 [], WritePipe 2 dmx sizeof_dmx, printf 177 [ArgInt 0, ArgStr ''OK'']] @
             write_continuously scenario_env @ cleanup,
           ending = Returned 0\<rparr>"
proof -
  note t = C9_two_standalone_writes
    [where env = scenario_env and a = "0xE00002ED" and b = "0xE00002C0",
      folded probes_fail_env_def]
  have k: "GetNumEndpoints_kr scenario_env = 0" "WritePipe1_kr scenario_env = 0"
    "WritePipe2_kr scenario_env = 0"
    by (simp_all add: scenario_env_def)
  from t [THEN conjunct2] have "main scenario_env =
     Some \<lparr>trace =
             (events (acquire scenario_env) @
              [GetNumEndpoints, printf 150 [ArgInt 1, ArgInt 0]] @
              pipe_queries scenario_env 1) @
             [printf 170 [], WritePipe 1 dmx sizeof_dmx, printf 172 [ArgInt 0, ArgStr ''OK''],
              printf 175 [], WritePipe 2 dmx sizeof_dmx, printf 177 [ArgInt 0, ArgStr ''OK'']] @
             write_continuously scenario_env @ cleanup,
           ending = Returned 0\<rparr>"
    by (simp add: scenario_reached scenario_numEndpoints k OK_or_FAIL_def kIOReturnSuccess_def)
  moreover from t [THEN conjunct1] have "main probes_fail_env =
     map_option
       (\<lambda>r. r\<lparr>trace := map (reprint 177 [ArgInt 0xE00002C0, ArgStr ''FAIL''])
                          (map (reprint 172 [ArgInt 0xE00002ED, ArgStr ''FAIL'']) (trace r))\<rparr>)
       (main scenario_env)"
    by (simp add: OK_or_FAIL_def kIOReturnSuccess_def)
  ultimately show ?thesis by blast
qed

text \<open>
  Claim C10: when the first write of the streaming loop succeeds, a sleep of 25000
  microseconds follows every write, the last one included: a loop of bound \<open>n\<close> sleeps
  \<open>n\<close> times and its last call is a sleep; the 200 iterations of \<open>main\<close> sleep 200
  times, and these are the only sleeps of the run.
\<close>

theorem C10_sleep_after_every_send:
  assumes "WritePipe_loop_kr env 0 = kIOReturnSuccess"
  shows "filter is_usleep (frames_loop env n 0) = replicate n (usleep 25000) \<and>
         count_list (frames_loop env n 0) (usleep 25000) = n \<and>
         (0 < n \<longrightarrow> last (frames_loop env n 0) = usleep 25000) \<and>
         filter is_usleep (write_continuously env) = replicate 200 (usleep 25000) \<and>
         (interface_bound env \<and> numEndpoints_val env \<noteq> 255 \<longrightarrow>
            (\<exists>r. main env = Some r \<and>
               filter is_usleep (trace r) = replicate 200 (usleep 25000)))"
proof -
  have f: "frames_loop env n 0 = concat (replicate n frame_sent)" for n
    using assms by (rule frames_loop_first_ok)
  have m: "\<exists>r. main env = Some r \<and> filter is_usleep (trace r) = replicate 200 (usleep 25000)"
    if "interface_bound env" "numEndpoints_val env \<noteq> 255"
    using that assms by (simp add: main_cases acquire_no_is_usleep usleep_after_acquire)
  show ?thesis
    using m
    by (simp add: f is_usleep_frames_sent usleep_frames_sent last_frames_sent
        write_continuously_def)
qed

text \<open>C10 with the first write succeeding and all the later ones failing.\<close>

theorem C10_witness:
  "filter is_usleep (frames_loop later_writes_fail_env 200 0) = replicate 200 (usleep 25000) \<and>
   count_list (frames_loop later_writes_fail_env 200 0) (usleep 25000) = 200 \<and>
   last (frames_loop later_writes_fail_env 200 0) = usleep 25000 \<and>
   (\<exists>r. main later_writes_fail_env = Some r \<and>
      filter is_usleep (trace r) = replicate 200 (usleep 25000))"
proof -
  note t = C10_sleep_after_every_send [OF later_writes_fail_facts(2), of 200]
  from t have "last (frames_loop later_writes_fail_env 200 0) = usleep 25000" by simp
  moreover from t have "\<exists>r. main later_writes_fail_env = Some r \<and>
      filter is_usleep (trace r) = replicate 200 (usleep 25000)"
    by (simp add: later_writes_fail_reached later_writes_fail_facts)
  ultimately show ?thesis using t by blast
qed

end
